theory Spec2Isabelle
  imports Main "HOL-Library.Word"
begin

unbundle bit_operations_syntax

section \<open>Data model of rethinkstore.go\<close>

text \<open>
  The store of \<^verbatim>\<open>rethinkstore.go\<close> (the version with the \<^verbatim>\<open>Expires\<close> field,
  \<^verbatim>\<open>DeleteExpired\<close> and \<^verbatim>\<open>Count\<close>) is embedded function by function. The
  libraries it calls (gorethink, securecookie, gob, net/http, gorilla/sessions) are not
  part of the repository; they appear as explicit boundaries:
  \<^item> the cookie codec and the gob encoder are the fields of a record \<open>libs\<close> that every
    operation takes as its first argument;
  \<^item> the clock (\<^verbatim>\<open>time.Now()\<close>, \<^verbatim>\<open>r.Now()\<close>), the random key and the outcome of
    sending a query (\<open>fault\<close>: \<open>None\<close> when the driver reports no error) are arguments
    of the call that consumes them;
  \<^item> the table is a list of documents together with the log of the queries issued.
  Go's \<^verbatim>\<open>int\<close> is taken to be 64 bits wide; a \<^verbatim>\<open>time.Time\<close> is the number of
  nanoseconds since the epoch, a \<^verbatim>\<open>time.Duration\<close> a signed 64-bit number of
  nanoseconds.
\<close>

type_synonym byte = "8 word"
type_synonym bytes = "byte list"
type_synonym time = int
type_synonym ptr = nat

datatype error =
    ErrConnect string
  | ErrCodec string
  | ErrGob string
  | ErrDatabase string
  | ErrEmptyResult
  | ErrDecodeStruct
  | ErrCountNotFloat
  | ErrInvalidCookieName string

text \<open>A call either panics (a nil pointer is dereferenced) or returns.\<close>

datatype 'a exec = Panic | Return 'a

text \<open>\<^verbatim>\<open>type RethinkSession struct\<close>: the persisted document.\<close>

record RethinkSession =
  Id' :: string
  Expires :: time
  Session :: bytes

text \<open>
  \<^verbatim>\<open>sessions.Options\<close>. Sessions and the store hold a pointer to such an object, so the
  objects live in a heap: a list of cells, pointer \<open>p\<close> naming cell \<open>p - 1\<close> and \<open>0\<close>
  being nil.
\<close>

record sessions_Options =
  Path :: string
  Domain' :: string
  MaxAge :: int
  Secure :: bool
  HttpOnly :: bool

type_synonym heap = "sessions_Options list"

definition deref :: "heap \<Rightarrow> ptr \<Rightarrow> sessions_Options option" where
  "deref h p = (if p = 0 \<or> length h < p then None else Some (h ! (p - 1)))"

text \<open>\<^verbatim>\<open>sessions.Session\<close>; \<open>Values\<close> is Go's \<^verbatim>\<open>map[interface{}]interface{}\<close>.\<close>

record ('k, 'v) sessions_Session =
  ID :: string
  Values :: "'k \<rightharpoonup> 'v"
  SOptions :: ptr
  IsNew :: bool
  name :: string

text \<open>
  \<^verbatim>\<open>sessions.NewSession(store, name)\<close>. The empty Options object it allocates is
  replaced by the very next statement of \<^verbatim>\<open>New\<close> and is unreachable from then on, so
  the model leaves the field nil instead of allocating.
\<close>

definition NewSession :: "string \<Rightarrow> ('k, 'v) sessions_Session" where
  "NewSession nm = \<lparr>ID = '''', Values = Map.empty, SOptions = 0, IsNew = False, name = nm\<rparr>"

text \<open>
  \<^verbatim>\<open>http.Cookie\<close> as \<^verbatim>\<open>sessions.NewCookie(name, value, options)\<close> builds it: the name,
  the value and the attributes read from the options at that moment. The response
  writer is the list of cookies set so far; the request is the list of cookies it
  carries, \<^verbatim>\<open>r.Cookie(name)\<close> returning the first of that name.
\<close>

record http_Cookie =
  Name :: string
  Value :: string
  Attrs :: sessions_Options

type_synonym ResponseWriter = "http_Cookie list"

definition NewCookie :: "string \<Rightarrow> string \<Rightarrow> sessions_Options \<Rightarrow> http_Cookie" where
  "NewCookie nm v opts = \<lparr>Name = nm, Value = v, Attrs = opts\<rparr>"

definition SetCookie :: "ResponseWriter \<Rightarrow> http_Cookie \<Rightarrow> ResponseWriter" where
  "SetCookie w c = w @ [c]"

record http_Request =
  cookies :: "(string \<times> string) list"

definition Cookie :: "http_Request \<Rightarrow> string \<Rightarrow> string option" where
  "Cookie r nm = map_of (cookies r) nm"

text \<open>
  \<^verbatim>\<open>securecookie.Codec\<close>: the store only distinguishes \<^verbatim>\<open>*securecookie.SecureCookie\<close>
  (whose maximum age \<^verbatim>\<open>MaxAge\<close> sets) from any other implementation.
\<close>

datatype codec = SecureCookie bytes bytes int | OtherCodec nat

fun CodecsFromPairs :: "bytes list \<Rightarrow> codec list" where
  "CodecsFromPairs (hashKey # blockKey # keyPairs) =
     SecureCookie hashKey blockKey (86400 * 30) # CodecsFromPairs keyPairs"
| "CodecsFromPairs [hashKey] = [SecureCookie hashKey [] (86400 * 30)]"
| "CodecsFromPairs [] = []"

text \<open>
  The codec boundary and the payload encoder. \<open>gobDecode\<close> receives the stored bytes and
  the map it decodes into, and returns the map afterwards with the error, if any.
\<close>

record ('k, 'v) libs =
  DecodeMulti :: "string \<Rightarrow> string \<Rightarrow> codec list \<Rightarrow> error + string"
  EncodeMulti :: "string \<Rightarrow> string \<Rightarrow> codec list \<Rightarrow> error + string"
  gobEncode :: "('k \<rightharpoonup> 'v) \<Rightarrow> error + bytes"
  gobDecode :: "bytes \<Rightarrow> ('k \<rightharpoonup> 'v) \<Rightarrow> ('k \<rightharpoonup> 'v) \<times> error option"

text \<open>\<^verbatim>\<open>type RethinkStore struct\<close>.\<close>

record RethinkStore =
  Rethink :: nat
  Table :: string
  Codecs :: "codec list"
  Options :: ptr
  DefaultMaxAge :: int

definition sessionExpire :: int where
  "sessionExpire = 86400 * 30"

section \<open>The database boundary\<close>

text \<open>
  The ReQL terms the store builds, and what running one does to the rows of the store's
  table. \<^verbatim>\<open>Between\<close> is closed on the left and open on the right (the driver's default
  bounds); \<^verbatim>\<open>Get(id).Replace(doc)\<close> replaces the document of that key or inserts it,
  in the form the driver writes (\<open>written\<close> below).
\<close>

datatype bound = MinVal | MaxVal | At time

text \<open>
  A signed 64-bit integer holds the value \<open>int64 x\<close> of a mathematical integer \<open>x\<close>: the
  representative of \<open>x\<close> modulo \<open>2 ^ 64\<close> between \<open>- 2 ^ 63\<close> and \<open>2 ^ 63 - 1\<close>.
\<close>

definition int64 :: "int \<Rightarrow> int" where
  "int64 x = (x + 2 ^ 63) mod 2 ^ 64 - 2 ^ 63"

text \<open>
  The driver writes a \<^verbatim>\<open>time.Time\<close> field as a TIME value whose epoch time is
  \<^verbatim>\<open>float64(t.UnixNano()) / float64(time.Second)\<close>, and \<^verbatim>\<open>UnixNano\<close> is a signed
  64-bit count of nanoseconds: it wraps around for a time from the year 2262 on. For a
  time before the oldest one that \<^verbatim>\<open>UnixNano\<close> can hold the driver writes
  \<^verbatim>\<open>t.Unix()\<close>, the whole seconds. The model keeps the written value in nanoseconds;
  the rounding of the float and of the server's clock is not modelled. The rows of the
  table hold documents as written.
\<close>

definition timePseudoTypeEncoder :: "time \<Rightarrow> time" where
  "timePseudoTypeEncoder t =
     (if t < - (2 ^ 63) then (t div 1000000000) * 1000000000 else int64 t)"

definition written :: "RethinkSession \<Rightarrow> RethinkSession" where
  "written doc = doc\<lparr>Expires := timePseudoTypeEncoder (Expires doc)\<rparr>"

datatype query =
    DBCreateQ string
  | TableCreateQ string
  | IndexCreateQ string
  | IndexWaitQ
  | GetQ string
  | ReplaceQ string RethinkSession
  | GetDeleteQ string
  | BetweenDeleteQ bound bound string
  | CountQ

datatype datum = DNull | DNumber nat | DDoc RethinkSession | DWrite

record database =
  rows :: "RethinkSession list"
  queries :: "query list"

fun lower_ok :: "bound \<Rightarrow> time \<Rightarrow> bool" where
  "lower_ok MinVal t = True"
| "lower_ok MaxVal t = False"
| "lower_ok (At l) t = (l \<le> t)"

fun upper_ok :: "bound \<Rightarrow> time \<Rightarrow> bool" where
  "upper_ok MinVal t = False"
| "upper_ok MaxVal t = True"
| "upper_ok (At u) t = (t < u)"

fun apply_query :: "query \<Rightarrow> RethinkSession list \<Rightarrow> RethinkSession list \<times> datum" where
  "apply_query (GetQ k) t =
     (t, case find (\<lambda>d. Id' d = k) t of None \<Rightarrow> DNull | Some d \<Rightarrow> DDoc d)"
| "apply_query (ReplaceQ k doc) t =
     (if list_ex (\<lambda>d. Id' d = k) t then map (\<lambda>d. if Id' d = k then written doc else d) t
      else t @ [written doc], DWrite)"
| "apply_query (GetDeleteQ k) t = (filter (\<lambda>d. Id' d \<noteq> k) t, DWrite)"
| "apply_query (BetweenDeleteQ lo hi ix) t =
     (filter (\<lambda>d. \<not> (lower_ok lo (Expires d) \<and> upper_ok hi (Expires d))) t, DWrite)"
| "apply_query CountQ t = (t, DNumber (length t))"
| "apply_query (DBCreateQ n) t = (t, DWrite)"
| "apply_query (TableCreateQ n) t = (t, DWrite)"
| "apply_query (IndexCreateQ n) t = (t, DWrite)"
| "apply_query IndexWaitQ t = (t, DWrite)"

definition Run :: "error option \<Rightarrow> query \<Rightarrow> database \<Rightarrow> database \<times> (error + datum)" where
  "Run fault q db =
     (case fault of
        Some err \<Rightarrow> (db\<lparr>queries := queries db @ [q]\<rparr>, Inl err)
      | None \<Rightarrow>
          (\<lparr>rows = fst (apply_query q (rows db)), queries = queries db @ [q]\<rparr>,
           Inr (snd (apply_query q (rows db)))))"

text \<open>\<^verbatim>\<open>cursor.One(&data)\<close> into a \<^verbatim>\<open>RethinkSession\<close>, and into an \<^verbatim>\<open>interface{}\<close>.\<close>

fun One_RethinkSession :: "datum \<Rightarrow> error + RethinkSession" where
  "One_RethinkSession DNull = Inl ErrEmptyResult"
| "One_RethinkSession (DDoc d) = Inr d"
| "One_RethinkSession (DNumber n) = Inl ErrDecodeStruct"
| "One_RethinkSession DWrite = Inl ErrDecodeStruct"

fun One_interface :: "datum \<Rightarrow> error + datum" where
  "One_interface DNull = Inl ErrEmptyResult"
| "One_interface d = Inr d"

section \<open>encoding/base32 and strings.TrimRight\<close>

text \<open>
  \<^verbatim>\<open>base32.StdEncoding.EncodeToString\<close>, after the block loop of Go's
  \<^verbatim>\<open>Encoding.Encode\<close>: five source bytes give the eight 5-bit values \<open>q0\<close> to
  \<open>q7\<close>, each written as a character of the standard alphabet; a shorter last group
  gives 2, 4, 5 or 7 characters (the missing bytes count as zero) and is padded with
  \<^verbatim>\<open>=\<close> to eight.
\<close>

definition encodeStd :: string where
  "encodeStd = ''ABCDEFGHIJKLMNOPQRSTUVWXYZ234567''"

definition enc :: "byte \<Rightarrow> char" where
  "enc b = encodeStd ! unat (b AND 31)"

definition q0 :: "byte \<Rightarrow> byte" where
  "q0 a = drop_bit 3 a"

definition q1 :: "byte \<Rightarrow> byte \<Rightarrow> byte" where
  "q1 a b = (drop_bit 6 b AND 31) OR (push_bit 2 a AND 31)"

definition q2 :: "byte \<Rightarrow> byte" where
  "q2 b = drop_bit 1 b AND 31"

definition q3 :: "byte \<Rightarrow> byte \<Rightarrow> byte" where
  "q3 b c = (drop_bit 4 c AND 31) OR (push_bit 4 b AND 31)"

definition q4 :: "byte \<Rightarrow> byte \<Rightarrow> byte" where
  "q4 c d = drop_bit 7 d OR (push_bit 1 c AND 31)"

definition q5 :: "byte \<Rightarrow> byte" where
  "q5 d = drop_bit 2 d AND 31"

definition q6 :: "byte \<Rightarrow> byte \<Rightarrow> byte" where
  "q6 d e = drop_bit 5 e OR (push_bit 3 d AND 31)"

definition q7 :: "byte \<Rightarrow> byte" where
  "q7 e = e AND 31"

fun EncodeToString :: "bytes \<Rightarrow> string" where
  "EncodeToString (a # b # c # d # e # src) =
     [enc (q0 a), enc (q1 a b), enc (q2 b), enc (q3 b c), enc (q4 c d), enc (q5 d),
      enc (q6 d e), enc (q7 e)] @ EncodeToString src"
| "EncodeToString [a, b, c, d] =
     [enc (q0 a), enc (q1 a b), enc (q2 b), enc (q3 b c), enc (q4 c d), enc (q5 d),
      enc (q6 d 0)] @ ''=''"
| "EncodeToString [a, b, c] =
     [enc (q0 a), enc (q1 a b), enc (q2 b), enc (q3 b c), enc (q4 c 0)] @ ''===''"
| "EncodeToString [a, b] =
     [enc (q0 a), enc (q1 a b), enc (q2 b), enc (q3 b 0)] @ ''====''"
| "EncodeToString [a] = [enc (q0 a), enc (q1 a 0)] @ ''======''"
| "EncodeToString [] = []"

definition TrimRight :: "string \<Rightarrow> string \<Rightarrow> string" where
  "TrimRight s cutset = rev (dropWhile (\<lambda>c. c \<in> set cutset) (rev s))"

section \<open>The store's operations\<close>

text \<open>
  \<^verbatim>\<open>time.Duration(age) * time.Second\<close> is a product of two signed 64-bit integers and
  wraps around silently (\<open>int64\<close>, defined with the database boundary).
\<close>

definition Second :: int where
  "Second = 1000000000"

text \<open>
  \<^verbatim>\<open>func (s *RethinkStore) MaxAge(age int)\<close> writes through the store's Options
  pointer and sets the maximum age of every SecureCookie codec.
\<close>

fun codec_MaxAge :: "int \<Rightarrow> codec \<Rightarrow> codec" where
  "codec_MaxAge age (SecureCookie hk bk m) = SecureCookie hk bk age"
| "codec_MaxAge age (OtherCodec n) = OtherCodec n"

definition RethinkStore_MaxAge ::
    "int \<Rightarrow> RethinkStore \<Rightarrow> heap \<Rightarrow> (heap \<times> RethinkStore) exec" where
  "RethinkStore_MaxAge age s h =
     (case deref h (Options s) of
        None \<Rightarrow> Panic
      | Some opts \<Rightarrow>
          Return (h[Options s - 1 := opts\<lparr>MaxAge := age\<rparr>],
                  s\<lparr>Codecs := map (codec_MaxAge age) (Codecs s)\<rparr>))"

text \<open>
  \<^verbatim>\<open>NewRethinkStore\<close>. \<open>conn\<close> is what \<^verbatim>\<open>r.Connect\<close> returned. The composite
  literal names no \<^verbatim>\<open>DefaultMaxAge\<close>, so the field has Go's zero value. The four
  set-up queries are sent and their errors discarded.
\<close>

definition NewRethinkStore ::
    "error + nat \<Rightarrow> string \<Rightarrow> string \<Rightarrow> bytes list \<Rightarrow> heap \<Rightarrow> database
      \<Rightarrow> (error + heap \<times> database \<times> RethinkStore) exec" where
  "NewRethinkStore conn dbname table keyPairs h db =
     (case conn of
        Inl err \<Rightarrow> Return (Inl err)
      | Inr session \<Rightarrow>
          (let h1 = h @ [\<lparr>Path = ''/'', Domain' = '''', MaxAge = sessionExpire,
                          Secure = False, HttpOnly = False\<rparr>];
               rs = \<lparr>Rethink = session, Table = table, Codecs = CodecsFromPairs keyPairs,
                     Options = length h1, DefaultMaxAge = 0\<rparr>
           in case RethinkStore_MaxAge sessionExpire rs h1 of
                Panic \<Rightarrow> Panic
              | Return (h2, rs') \<Rightarrow>
                  Return (Inr (h2,
                    fst (Run None IndexWaitQ
                      (fst (Run None (IndexCreateQ ''expires'')
                        (fst (Run None (TableCreateQ table)
                          (fst (Run None (DBCreateQ dbname) db))))))),
                    rs'))))"

text \<open>
  \<^verbatim>\<open>func (s *RethinkStore) save(session)\<close>. The struct handed to \<^verbatim>\<open>Replace\<close> holds
  the \<^verbatim>\<open>time.Time\<close> computed here; what reaches the table is its written form.
\<close>

definition save ::
    "('k, 'v) libs \<Rightarrow> time \<Rightarrow> error option \<Rightarrow> RethinkStore \<Rightarrow> heap \<Rightarrow> database
      \<Rightarrow> ('k, 'v) sessions_Session \<Rightarrow> (database \<times> error option) exec" where
  "save L now fault s h db session =
     (case gobEncode L (Values session) of
        Inl err \<Rightarrow> Return (db, Some err)
      | Inr buf \<Rightarrow>
          (case deref h (SOptions session) of
             None \<Rightarrow> Panic
           | Some opts \<Rightarrow>
               (let age = (if MaxAge opts = 0 then DefaultMaxAge s else MaxAge opts);
                    expires = now + int64 (age * Second)
                in case Run fault
                     (ReplaceQ (ID session)
                        \<lparr>Id' = ID session, Expires = expires, Session = buf\<rparr>) db of
                     (db', Inl err) \<Rightarrow> Return (db', Some err)
                   | (db', Inr res) \<Rightarrow> Return (db', None))))"

text \<open>
  \<^verbatim>\<open>func (s *RethinkStore) load(session)\<close>: the session afterwards, the flag and the
  error.
\<close>

definition load ::
    "('k, 'v) libs \<Rightarrow> error option \<Rightarrow> RethinkStore \<Rightarrow> database \<Rightarrow> ('k, 'v) sessions_Session
      \<Rightarrow> database \<times> ('k, 'v) sessions_Session \<times> bool \<times> error option" where
  "load L fault s db session =
     (case Run fault (GetQ (ID session)) db of
        (db', Inl err) \<Rightarrow> (db', session, False, Some err)
      | (db', Inr res) \<Rightarrow>
          (case One_RethinkSession res of
             Inl err \<Rightarrow> (db', session, False, Some err)
           | Inr data \<Rightarrow>
               (db',
                session\<lparr>Values := fst (gobDecode L (Session data) (Values session))\<rparr>,
                True,
                snd (gobDecode L (Session data) (Values session)))))"

text \<open>\<^verbatim>\<open>func (s *RethinkStore) delete(session)\<close>. No other function of the file calls it.\<close>

definition delete ::
    "error option \<Rightarrow> RethinkStore \<Rightarrow> database \<Rightarrow> ('k, 'v) sessions_Session
      \<Rightarrow> database \<times> error option" where
  "delete fault s db session =
     (case Run fault (GetDeleteQ (ID session)) db of
        (db', Inl err) \<Rightarrow> (db', Some err)
      | (db', Inr res) \<Rightarrow> (db', None))"

text \<open>
  \<^verbatim>\<open>func (s *RethinkStore) New(r, name)\<close>. \<^verbatim>\<open>&(*s.Options)\<close> is the pointer
  \<^verbatim>\<open>s.Options\<close> itself (it panics when that is nil). The error of \<^verbatim>\<open>load\<close> is bound
  by \<^verbatim>\<open>:=\<close> to a new variable of the inner block, so the \<^verbatim>\<open>err\<close> that \<^verbatim>\<open>New\<close>
  returns is still the nil that \<^verbatim>\<open>DecodeMulti\<close> returned.
\<close>

definition New ::
    "('k, 'v) libs \<Rightarrow> error option \<Rightarrow> RethinkStore \<Rightarrow> heap \<Rightarrow> database \<Rightarrow> http_Request
      \<Rightarrow> string \<Rightarrow> (database \<times> ('k, 'v) sessions_Session \<times> error option) exec" where
  "New L fault s h db r nm =
     (case deref h (Options s) of
        None \<Rightarrow> Panic
      | Some defaults \<Rightarrow>
          (let session = (NewSession nm)\<lparr>SOptions := Options s, IsNew := True\<rparr>
           in case Cookie r nm of
                None \<Rightarrow> Return (db, session, None)
              | Some c \<Rightarrow>
                  (case DecodeMulti L nm c (Codecs s) of
                     Inl err \<Rightarrow> Return (db, session, Some err)
                   | Inr sid \<Rightarrow>
                       (case load L fault s db (session\<lparr>ID := sid\<rparr>) of
                          (db', session', ok, err') \<Rightarrow>
                            Return (db', session'\<lparr>IsNew := \<not> (err' = None \<and> ok)\<rparr>,
                                    None)))))"

text \<open>
  \<^verbatim>\<open>func (s *RethinkStore) Get(r, name)\<close> is \<^verbatim>\<open>sessions.GetRegistry(r).Get(s, name)\<close>:
  the registry of the request refuses a name that is not a valid cookie name (empty, or
  holding a character that is not a token character) with a nil session; otherwise it
  returns the session it already holds under that name, or calls \<^verbatim>\<open>New\<close> and keeps
  the result.
\<close>

definition isToken :: "char \<Rightarrow> bool" where
  "isToken c =
     (c \<in> set (''!#$%&*+-.0123456789ABCDEFGHIJKLMNOPQRSTUVWXYZ^_abcdefghijklmnopqrstuvwxyz|~''
               @ [CHR 0x27, CHR 0x60]))"

definition isCookieNameValid :: "string \<Rightarrow> bool" where
  "isCookieNameValid raw = (raw \<noteq> [] \<and> list_all isToken raw)"

type_synonym ('k, 'v) registry = "(string \<times> ('k, 'v) sessions_Session \<times> error option) list"

definition Get ::
    "('k, 'v) libs \<Rightarrow> error option \<Rightarrow> RethinkStore \<Rightarrow> heap \<Rightarrow> database
      \<Rightarrow> ('k, 'v) registry \<Rightarrow> http_Request \<Rightarrow> string
      \<Rightarrow> (database \<times> ('k, 'v) registry \<times> ('k, 'v) sessions_Session option
          \<times> error option) exec" where
  "Get L fault s h db reg r nm =
     (if \<not> isCookieNameValid nm then
        Return (db, reg, None, Some (ErrInvalidCookieName nm))
      else
        case map_of reg nm of
          Some (session, err) \<Rightarrow> Return (db, reg, Some session, err)
        | None \<Rightarrow>
            (case New L fault s h db r nm of
               Panic \<Rightarrow> Panic
             | Return (db', session, err) \<Rightarrow>
                 Return (db', (nm, session, err) # reg, Some session, err)))"

text \<open>
  \<^verbatim>\<open>func (s *RethinkStore) Save(r, w, session)\<close>. \<open>key\<close> is what
  \<^verbatim>\<open>securecookie.GenerateRandomKey(32)\<close> returned. The result is the session (its ID
  may have been assigned), the database, the response and the error.
\<close>

definition Save ::
    "('k, 'v) libs \<Rightarrow> time \<Rightarrow> bytes \<Rightarrow> error option \<Rightarrow> RethinkStore \<Rightarrow> heap \<Rightarrow> database
      \<Rightarrow> ResponseWriter \<Rightarrow> ('k, 'v) sessions_Session
      \<Rightarrow> (('k, 'v) sessions_Session \<times> database \<times> ResponseWriter \<times> error option) exec" where
  "Save L now key fault s h db w session =
     (case deref h (SOptions session) of
        None \<Rightarrow> Panic
      | Some opts \<Rightarrow>
          if MaxAge opts < 0 then
            Return (session, db, SetCookie w (NewCookie (name session) '''' opts), None)
          else
            (let session1 =
                   (if ID session = ''''
                    then session\<lparr>ID := TrimRight (EncodeToString key) ''=''\<rparr>
                    else session)
             in case save L now fault s h db session1 of
                  Panic \<Rightarrow> Panic
                | Return (db', Some err) \<Rightarrow> Return (session1, db', w, Some err)
                | Return (db', None) \<Rightarrow>
                    (case EncodeMulti L (name session1) (ID session1) (Codecs s) of
                       Inl err \<Rightarrow> Return (session1, db', w, Some err)
                     | Inr encoded \<Rightarrow>
                         Return (session1, db',
                                 SetCookie w (NewCookie (name session1) encoded opts),
                                 None))))"

text \<open>\<^verbatim>\<open>func (s *RethinkStore) DeleteExpired()\<close>; \<open>now\<close> is the server's \<^verbatim>\<open>r.Now()\<close>.\<close>

definition DeleteExpired ::
    "error option \<Rightarrow> time \<Rightarrow> RethinkStore \<Rightarrow> database \<Rightarrow> database \<times> error option" where
  "DeleteExpired fault now s db =
     (case Run fault (BetweenDeleteQ MinVal (At now) ''expires'') db of
        (db', Inl err) \<Rightarrow> (db', Some err)
      | (db', Inr res) \<Rightarrow> (db', None))"

text \<open>\<^verbatim>\<open>func (s *RethinkStore) Count()\<close>.\<close>

definition Count ::
    "error option \<Rightarrow> RethinkStore \<Rightarrow> database \<Rightarrow> database \<times> nat \<times> error option" where
  "Count fault s db =
     (case Run fault CountQ db of
        (db', Inl err) \<Rightarrow> (db', 0, Some err)
      | (db', Inr cursor) \<Rightarrow>
          (case One_interface cursor of
             Inl err \<Rightarrow> (db', 0, Some err)
           | Inr (DNumber n) \<Rightarrow> (db', n, None)
           | Inr other \<Rightarrow> (db', 0, Some ErrCountNotFloat)))"

section \<open>A decoder and sample values\<close>

text \<open>
  The inverse of the unpadded encoding, used to show that distinct keys give distinct
  identifiers: \<open>dec_char\<close> is the position of a character in the alphabet, and
  \<open>unblock\<close> reassembles the bytes from groups of eight characters and a shorter last
  group.
\<close>

definition dec_char :: "char \<Rightarrow> byte" where
  "dec_char c = of_nat (length (takeWhile (\<lambda>x. x \<noteq> c) encodeStd))"

fun unblock :: "string \<Rightarrow> bytes" where
  "unblock (c0 # c1 # c2 # c3 # c4 # c5 # c6 # c7 # cs) =
     [push_bit 3 (dec_char c0) OR drop_bit 2 (dec_char c1),
      push_bit 6 (dec_char c1) OR push_bit 1 (dec_char c2) OR drop_bit 4 (dec_char c3),
      push_bit 4 (dec_char c3) OR drop_bit 1 (dec_char c4),
      push_bit 7 (dec_char c4) OR push_bit 2 (dec_char c5) OR drop_bit 3 (dec_char c6),
      push_bit 5 (dec_char c6) OR dec_char c7] @ unblock cs"
| "unblock [c0, c1, c2, c3, c4, c5, c6] =
     [push_bit 3 (dec_char c0) OR drop_bit 2 (dec_char c1),
      push_bit 6 (dec_char c1) OR push_bit 1 (dec_char c2) OR drop_bit 4 (dec_char c3),
      push_bit 4 (dec_char c3) OR drop_bit 1 (dec_char c4),
      push_bit 7 (dec_char c4) OR push_bit 2 (dec_char c5) OR drop_bit 3 (dec_char c6)]"
| "unblock [c0, c1, c2, c3, c4] =
     [push_bit 3 (dec_char c0) OR drop_bit 2 (dec_char c1),
      push_bit 6 (dec_char c1) OR push_bit 1 (dec_char c2) OR drop_bit 4 (dec_char c3),
      push_bit 4 (dec_char c3) OR drop_bit 1 (dec_char c4)]"
| "unblock [c0, c1, c2, c3] =
     [push_bit 3 (dec_char c0) OR drop_bit 2 (dec_char c1),
      push_bit 6 (dec_char c1) OR push_bit 1 (dec_char c2) OR drop_bit 4 (dec_char c3)]"
| "unblock [c0, c1] = [push_bit 3 (dec_char c0) OR drop_bit 2 (dec_char c1)]"
| "unblock cs = []"

text \<open>
  Sample collaborators and values at which the theorems below are evaluated. The sample
  codec prefixes an identifier with \<^verbatim>\<open>signed:\<close> and rejects any value without
  the prefix; the sample payload encoder writes the byte stored under the key
  \<^verbatim>\<open>n\<close>, refuses the byte 255, and fails to decode more than one byte.
\<close>

definition demo_libs :: "(string, byte) libs" where
  "demo_libs =
     \<lparr>DecodeMulti = (\<lambda>nm v cs. if cs \<noteq> [] \<and> take 7 v = ''signed:'' then Inr (drop 7 v)
                                 else Inl (ErrCodec ''securecookie: the value is not valid'')),
      EncodeMulti = (\<lambda>nm v cs. if cs = [] then Inl (ErrCodec ''securecookie: no codecs provided'')
                                 else Inr (''signed:'' @ v)),
      gobEncode = (\<lambda>V. case V ''n'' of None \<Rightarrow> Inr []
                         | Some b \<Rightarrow> if b = 255 then Inl (ErrGob ''gob: type not registered'')
                                     else Inr [b]),
      gobDecode = (\<lambda>buf V. case buf of [] \<Rightarrow> (V, None)
                             | [b] \<Rightarrow> (V(''n'' \<mapsto> b), None)
                             | b # c # bs \<Rightarrow> (V, Some (ErrGob ''gob: unexpected EOF'')))\<rparr>"

definition demo_options :: "int \<Rightarrow> sessions_Options" where
  "demo_options age = \<lparr>Path = ''/'', Domain' = '''', MaxAge = age, Secure = False, HttpOnly = False\<rparr>"

definition demo_store :: RethinkStore where
  "demo_store = \<lparr>Rethink = 1, Table = ''sessions'', Codecs = [SecureCookie [1, 2, 3] [] 2592000],
                  Options = 1, DefaultMaxAge = 0\<rparr>"

definition demo_session :: "string \<Rightarrow> byte \<Rightarrow> (string, byte) sessions_Session" where
  "demo_session k b = \<lparr>ID = k, Values = [''n'' \<mapsto> b], SOptions = 1, IsNew = False, name = ''sid''\<rparr>"

definition demo_db :: "RethinkSession list \<Rightarrow> database" where
  "demo_db t = \<lparr>rows = t, queries = []\<rparr>"





section \<open>Base-32 identifiers\<close>

lemma mask_31: "(31::byte) = mask 5" by (simp add: mask_eq_exp_minus_1)

lemma quintet_bound: "unat (b AND (31::byte)) < 32"
proof -
  have "unat (take_bit 5 b) = take_bit 5 (unat b)" by (rule unsigned_take_bit_eq)
  moreover have "take_bit 5 (unat b) < 2 ^ 5" by (rule take_bit_nat_less_exp)
  ultimately show ?thesis unfolding mask_31 take_bit_eq_mask[symmetric] by simp
qed

lemma bit_double_byte: "bit (c * 2 :: byte) n = (n \<noteq> 0 \<and> n < 8 \<and> bit c (n - 1))"
  using bit_double_iff[of c n] by (auto simp add: mult.commute bit_simps)

lemma byte_eqI:
  fixes x y :: byte
  assumes "bit x 0 = bit y 0" "bit x 1 = bit y 1" "bit x 2 = bit y 2" "bit x 3 = bit y 3"
    "bit x 4 = bit y 4" "bit x 5 = bit y 5" "bit x 6 = bit y 6" "bit x 7 = bit y 7"
  shows "x = y"
proof (rule bit_word_eqI)
  fix n assume "n < LENGTH(8)"
  then have "n = 0 \<or> n = 1 \<or> n = 2 \<or> n = 3 \<or> n = 4 \<or> n = 5 \<or> n = 6 \<or> n = 7"
    by auto
  with assms show "bit x n = bit y n" by auto
qed

lemma rebuild_a: "push_bit 3 (q0 a) OR drop_bit 2 (q1 a b) = a"
  unfolding q0_def q1_def mask_31
  by (rule byte_eqI; simp add: bit_simps bit_double_byte; (simp add: numeral_2_eq_2 numeral_3_eq_3)?)

lemma rebuild_b: "push_bit 6 (q1 a b) OR push_bit 1 (q2 b) OR drop_bit 4 (q3 b c) = b"
  unfolding q1_def q2_def q3_def mask_31
  by (rule byte_eqI; simp add: bit_simps bit_double_byte; (simp add: numeral_2_eq_2 numeral_3_eq_3)?)

lemma rebuild_c: "push_bit 4 (q3 b c) OR drop_bit 1 (q4 c d) = c"
  unfolding q4_def q3_def mask_31
  by (rule byte_eqI; simp add: bit_simps bit_double_byte; (simp add: numeral_2_eq_2 numeral_3_eq_3)?)

lemma rebuild_d: "push_bit 7 (q4 c d) OR push_bit 2 (q5 d) OR drop_bit 3 (q6 d e) = d"
  unfolding q4_def q5_def q6_def mask_31
  by (rule byte_eqI; simp add: bit_simps bit_double_byte; (simp add: numeral_2_eq_2 numeral_3_eq_3)?)

lemma rebuild_e: "push_bit 5 (q6 d e) OR q7 e = e"
  unfolding q7_def q6_def mask_31
  by (rule byte_eqI; simp add: bit_simps bit_double_byte; (simp add: numeral_2_eq_2 numeral_3_eq_3)?)

lemma byte_hi: "8 \<le> n \<Longrightarrow> \<not> bit (a :: byte) n"
  by (auto dest: bit_imp_le_length)

lemma quintet_masked:
  "q0 a AND 31 = q0 a" "q1 a b AND 31 = q1 a b" "q2 b AND 31 = q2 b" "q3 b c AND 31 = q3 b c"
  "q4 c d AND 31 = q4 c d" "q5 d AND 31 = q5 d" "q6 d e AND 31 = q6 d e" "q7 e AND 31 = q7 e"
  unfolding q0_def q1_def q2_def q3_def q4_def q5_def q6_def q7_def mask_31
  by (rule byte_eqI; simp add: bit_simps bit_double_byte byte_hi; (simp add: numeral_2_eq_2 numeral_3_eq_3)?)+

lemma position_nth:
  "distinct xs \<Longrightarrow> n < length xs \<Longrightarrow> length (takeWhile (\<lambda>x. x \<noteq> xs ! n) xs) = n"
proof (induction xs arbitrary: n)
  case Nil
  then show ?case by simp
next
  case (Cons x xs)
  then show ?case by (cases n) auto
qed

lemma distinct_encodeStd: "distinct encodeStd"
  by (simp add: encodeStd_def)

lemma length_encodeStd: "length encodeStd = 32"
  by (simp add: encodeStd_def)

lemma dec_char_enc: "dec_char (enc q) = q AND 31"
proof -
  have "unat (q AND 31) < length encodeStd"
    using quintet_bound [of q] by (simp add: length_encodeStd)
  then have "length (takeWhile (\<lambda>x. x \<noteq> encodeStd ! unat (q AND 31)) encodeStd) = unat (q AND 31)"
    by (rule position_nth [OF distinct_encodeStd])
  then show ?thesis by (simp add: dec_char_def enc_def)
qed

lemma enc_in_alphabet: "enc q \<in> set encodeStd"
  unfolding enc_def using quintet_bound [of q] by (simp add: length_encodeStd)

lemma pad_not_in_alphabet: "CHR ''='' \<notin> set encodeStd"
  by (simp add: encodeStd_def)

lemma enc_not_pad: "enc q \<noteq> CHR ''=''"
  using enc_in_alphabet [of q] pad_not_in_alphabet by metis

lemma TrimRight_append:
  assumes "xs \<noteq> []" and "last xs \<notin> set cutset"
  shows "TrimRight (xs @ ys) cutset = xs @ TrimRight ys cutset"
proof -
  have "dropWhile (\<lambda>c. c \<in> set cutset) (rev xs) = rev xs"
    using assms by (cases "rev xs") (auto simp: last_rev [symmetric] simp del: last_rev)
  then show ?thesis
    by (simp add: TrimRight_def dropWhile_append)
qed

lemma TrimRight_quintets:
  "TrimRight (EncodeToString (a # b # c # d # e # src)) ''='' =
     [enc (q0 a), enc (q1 a b), enc (q2 b), enc (q3 b c), enc (q4 c d), enc (q5 d),
      enc (q6 d e), enc (q7 e)] @ TrimRight (EncodeToString src) ''=''"
  using TrimRight_append [of "[enc (q0 a), enc (q1 a b), enc (q2 b), enc (q3 b c), enc (q4 c d), enc (q5 d),
      enc (q6 d e), enc (q7 e)]" "''=''" "EncodeToString src"]
  by (simp add: enc_not_pad)

lemma TrimRight_tail:
  "TrimRight (EncodeToString [a, b, c, d]) ''='' =
     [enc (q0 a), enc (q1 a b), enc (q2 b), enc (q3 b c), enc (q4 c d), enc (q5 d), enc (q6 d 0)]"
  "TrimRight (EncodeToString [a, b, c]) ''='' =
     [enc (q0 a), enc (q1 a b), enc (q2 b), enc (q3 b c), enc (q4 c 0)]"
  "TrimRight (EncodeToString [a, b]) ''='' = [enc (q0 a), enc (q1 a b), enc (q2 b), enc (q3 b 0)]"
  "TrimRight (EncodeToString [a]) ''='' = [enc (q0 a), enc (q1 a 0)]"
  "TrimRight (EncodeToString []) ''='' = []"
  by (simp_all add: TrimRight_def enc_not_pad)

lemma unblock_TrimRight: "unblock (TrimRight (EncodeToString src) ''='') = src"
proof (induction src rule: EncodeToString.induct)
  case (1 a b c d e src)
  then show ?case
    by (simp only: TrimRight_quintets append_Cons append_Nil unblock.simps dec_char_enc quintet_masked
        rebuild_a rebuild_b rebuild_c rebuild_d rebuild_e)
next
  case (2 a b c d)
  show ?case
    by (simp only: TrimRight_tail unblock.simps dec_char_enc quintet_masked rebuild_a rebuild_b rebuild_c rebuild_d)
next
  case (3 a b c)
  show ?case
    by (simp only: TrimRight_tail unblock.simps dec_char_enc quintet_masked rebuild_a rebuild_b rebuild_c)
next
  case (4 a b)
  show ?case
    by (simp only: TrimRight_tail unblock.simps dec_char_enc quintet_masked rebuild_a rebuild_b)
next
  case (5 a)
  show ?case
    by (simp only: TrimRight_tail unblock.simps dec_char_enc quintet_masked rebuild_a)
next
  case 6
  show ?case
    by (simp only: TrimRight_tail unblock.simps)
qed

lemma TrimRight_alphabet: "set (TrimRight (EncodeToString src) ''='') \<subseteq> set encodeStd"
proof (induction src rule: EncodeToString.induct)
  case (1 a b c d e src)
  then show ?case
    by (simp only: TrimRight_quintets) (simp add: enc_in_alphabet)
qed (simp_all only: TrimRight_tail, simp_all add: enc_in_alphabet)

lemma TrimRight_length:
  "length (TrimRight (EncodeToString src) ''='') = (length src * 8 + 4) div 5"
proof (induction src rule: EncodeToString.induct)
  case (1 a b c d e src)
  then show ?case
    by (simp only: TrimRight_quintets) simp
qed (simp_all only: TrimRight_tail, simp_all)

text \<open>The encoder on the test vectors of RFC 4648, and on the key used below.\<close>

lemma b32_vectors:
  "EncodeToString [102] = ''MY======''"
  "EncodeToString [102, 111] = ''MZXQ====''"
  "EncodeToString [102, 111, 111] = ''MZXW6===''"
  "EncodeToString [102, 111, 111, 98] = ''MZXW6YQ=''"
  "EncodeToString [102, 111, 111, 98, 97] = ''MZXW6YTB''"
  "EncodeToString [102, 111, 111, 98, 97, 114] = ''MZXW6YTBOI======''"
  by (simp_all add: enc_def encodeStd_def q0_def q1_def q2_def q3_def q4_def q5_def q6_def q7_def)

lemma b32_key:
  "TrimRight (EncodeToString [0, 1, 2, 3, 4, 5, 6, 7, 8, 9, 10, 11, 12, 13, 14, 15, 16, 17, 18, 19,
      20, 21, 22, 23, 24, 25, 26, 27, 28, 29, 30, 31]) ''=''
   = ''AAAQEAYEAUDAOCAJBIFQYDIOB4IBCEQTCQKRMFYYDENBWHA5DYPQ''"
  by (simp add: TrimRight_def enc_def encodeStd_def q0_def q1_def q2_def q3_def q4_def q5_def q6_def q7_def)

section \<open>Queries and the two paths of Save\<close>

lemma Run_None:
  "Run None q db =
     (\<lparr>rows = fst (apply_query q (rows db)), queries = queries db @ [q]\<rparr>,
      Inr (snd (apply_query q (rows db))))"
  by (simp add: Run_def)

lemma Run_Some: "Run (Some err) q db = (db\<lparr>queries := queries db @ [q]\<rparr>, Inl err)"
  by (simp add: Run_def)

lemma find_map_replace:
  "list_ex (\<lambda>d. Id' d = Id' doc) t \<Longrightarrow>
     find (\<lambda>d. Id' d = Id' doc) (map (\<lambda>d. if Id' d = Id' doc then doc else d) t) = Some doc"
  by (induction t) auto

lemma find_append_new:
  "\<not> list_ex (\<lambda>d. Id' d = Id' doc) t \<Longrightarrow> find (\<lambda>d. Id' d = Id' doc) (t @ [doc]) = Some doc"
  by (induction t) auto

lemma find_replaced:
  "Id' doc = k \<Longrightarrow>
     find (\<lambda>d. Id' d = k) (fst (apply_query (ReplaceQ k doc) t)) = Some (written doc)"
  using find_map_replace [of "written doc" t] find_append_new [of "written doc" t]
  by (auto simp: written_def)


lemma save_encode_error:
  assumes "gobEncode L (Values session) = Inl err"
  shows "save L now fault s h db session = Return (db, Some err)"
  using assms by (simp add: save_def)

lemma save_run:
  assumes "gobEncode L (Values session) = Inr buf" and "deref h (SOptions session) = Some opts"
  shows "save L now fault s h db session =
           (case fault of
              Some err \<Rightarrow> Return (db\<lparr>queries := queries db @
                  [ReplaceQ (ID session) \<lparr>Id' = ID session,
                     Expires = now + int64 ((if MaxAge opts = 0 then DefaultMaxAge s else MaxAge opts) * Second),
                     Session = buf\<rparr>]\<rparr>, Some err)
            | None \<Rightarrow> Return (\<lparr>rows = fst (apply_query (ReplaceQ (ID session) \<lparr>Id' = ID session,
                     Expires = now + int64 ((if MaxAge opts = 0 then DefaultMaxAge s else MaxAge opts) * Second),
                     Session = buf\<rparr>) (rows db)),
                  queries = queries db @
                  [ReplaceQ (ID session) \<lparr>Id' = ID session,
                     Expires = now + int64 ((if MaxAge opts = 0 then DefaultMaxAge s else MaxAge opts) * Second),
                     Session = buf\<rparr>]\<rparr>, None))"
  using assms by (cases fault) (simp_all add: save_def Run_def Let_def)

lemma save_returns:
  assumes "deref h (SOptions session) = Some opts"
  shows "\<exists>db' err. save L now fault s h db session = Return (db', err)"
  using assms by (auto simp: save_def Run_def Let_def split: sum.splits option.splits)

lemma Save_nonnegative:
  assumes "deref h (SOptions session) = Some opts" and "0 \<le> MaxAge opts"
    and "session1 = (if ID session = '''' then session\<lparr>ID := TrimRight (EncodeToString key) ''=''\<rparr> else session)"
  shows "Save L now key fault s h db w session =
     (case save L now fault s h db session1 of
        Panic \<Rightarrow> Panic
      | Return (db', Some err) \<Rightarrow> Return (session1, db', w, Some err)
      | Return (db', None) \<Rightarrow>
          (case EncodeMulti L (name session1) (ID session1) (Codecs s) of
             Inl err \<Rightarrow> Return (session1, db', w, Some err)
           | Inr encoded \<Rightarrow>
               Return (session1, db', SetCookie w (NewCookie (name session1) encoded opts), None)))"
  using assms(1,2) unfolding assms(3) Save_def by (simp add: Let_def)

section \<open>Stored records, construction and New\<close>

lemma int64_id: "- (2 ^ 63) \<le> x \<Longrightarrow> x < 2 ^ 63 \<Longrightarrow> int64 x = x"
  by (simp add: int64_def)

lemma timePseudoTypeEncoder_id:
  "- (2 ^ 63) \<le> t \<Longrightarrow> t < 2 ^ 63 \<Longrightarrow> timePseudoTypeEncoder t = t"
  by (simp add: timePseudoTypeEncoder_def int64_def)

lemma replaced_all:
  "Id' doc = k \<Longrightarrow>
     list_all (\<lambda>d. Id' d \<noteq> k \<or> d = written doc) (fst (apply_query (ReplaceQ k doc) t))"
  by (auto simp: list_all_iff list_ex_iff)

lemma Save_stores_record:
  assumes "deref h (SOptions session) = Some opts" and "0 \<le> MaxAge opts"
    and "gobEncode L (Values session) = Inr buf"
    and "sid = (if ID session = '''' then TrimRight (EncodeToString key) ''='' else ID session)"
    and "age = (if MaxAge opts = 0 then DefaultMaxAge s else MaxAge opts)"
  shows "\<exists>db' w' err.
           Save L now key None s h db w session = Return (session\<lparr>ID := sid\<rparr>, db', w', err) \<and>
           find (\<lambda>d. Id' d = sid) (rows db') =
             Some \<lparr>Id' = sid, Expires = timePseudoTypeEncoder (now + int64 (age * Second)),
                   Session = buf\<rparr> \<and>
           list_all (\<lambda>d. Id' d \<noteq> sid \<or>
                          Expires d = timePseudoTypeEncoder (now + int64 (age * Second))) (rows db')"
proof -
  define session1 where
    "session1 = (if ID session = '''' then session\<lparr>ID := TrimRight (EncodeToString key) ''=''\<rparr> else session)"
  have s1: "session1 = session\<lparr>ID := sid\<rparr>"
    by (simp add: session1_def assms(4))
  have d1: "deref h (SOptions session1) = Some opts" and v1: "gobEncode L (Values session1) = Inr buf"
    and i1: "ID session1 = sid"
    using assms(1,3) by (simp_all add: s1)
  define doc where "doc = \<lparr>Id' = sid, Expires = now + int64 (age * Second), Session = buf\<rparr>"
  define db1 where "db1 = \<lparr>rows = fst (apply_query (ReplaceQ sid doc) (rows db)),
      queries = queries db @ [ReplaceQ sid doc]\<rparr>"
  have sv: "save L now None s h db session1 = Return (db1, None)"
    using save_run [OF v1 d1, of now None s db] by (simp add: db1_def doc_def i1 assms(5))
  have wd: "written doc = \<lparr>Id' = sid,
      Expires = timePseudoTypeEncoder (now + int64 (age * Second)), Session = buf\<rparr>"
    by (simp add: written_def doc_def)
  have fd: "find (\<lambda>d. Id' d = sid) (rows db1) = Some (written doc)"
    using find_replaced [of doc sid "rows db"] by (simp add: db1_def doc_def)
  have al0: "list_all (\<lambda>d. Id' d \<noteq> sid \<or> d = written doc) (rows db1)"
    using replaced_all [of doc sid "rows db"] by (simp add: db1_def doc_def)
  have al: "list_all (\<lambda>d. Id' d \<noteq> sid \<or>
      Expires d = timePseudoTypeEncoder (now + int64 (age * Second))) (rows db1)"
    unfolding list_all_iff
  proof
    fix d assume "d \<in> set (rows db1)"
    with al0 have "Id' d \<noteq> sid \<or> d = written doc" by (simp add: list_all_iff)
    moreover have "Expires (written doc) = timePseudoTypeEncoder (now + int64 (age * Second))"
      by (simp add: wd)
    ultimately show "Id' d \<noteq> sid \<or>
        Expires d = timePseudoTypeEncoder (now + int64 (age * Second))" by blast
  qed
  have "\<exists>w' err. Save L now key None s h db w session = Return (session1, db1, w', err)"
    unfolding Save_nonnegative [OF assms(1,2) session1_def] sv
    by (cases "EncodeMulti L (name session1) (ID session1) (Codecs s)") simp_all
  with fd al show ?thesis unfolding s1 wd by blast
qed

lemma NewRethinkStore_result:
  assumes "NewRethinkStore conn dbname table keyPairs h0 db0 = Return (Inr (h1, db1, s))"
  shows "DefaultMaxAge s = 0 \<and> Options s = Suc (length h0) \<and> Table s = table
       \<and> deref h1 (Options s) = Some \<lparr>Path = ''/'', Domain' = '''', MaxAge = sessionExpire,
                                        Secure = False, HttpOnly = False\<rparr>
       \<and> rows db1 = rows db0"
  using assms
  by (cases conn) (auto simp: NewRethinkStore_def RethinkStore_MaxAge_def deref_def Run_def Let_def)


text \<open>Once \<^verbatim>\<open>DecodeMulti\<close> has succeeded, the error \<^verbatim>\<open>New\<close> returns is nil.\<close>

lemma New_returns_nil_after_decode:
  assumes "deref h (Options s) = Some defaults"
      and "Cookie r nm = Some c"
      and "DecodeMulti L nm c (Codecs s) = Inr sid"
  shows "\<exists>db' session'. New L fault s h db r nm = Return (db', session', None)"
  using assms by (simp add: New_def split: prod.splits)

text \<open>
  On a request whose registry holds no session yet, \<^verbatim>\<open>Get\<close> with a valid cookie
  name is \<^verbatim>\<open>New\<close>.
\<close>

lemma Get_empty_registry:
  "isCookieNameValid nm \<Longrightarrow>
   Get L fault s h db [] r nm =
     (case New L fault s h db r nm of
        Panic \<Rightarrow> Panic
      | Return (db', session, err) \<Rightarrow> Return (db', [(nm, session, err)], Some session, err))"
  by (simp add: Get_def)

lemma isCookieNameValid_samples:
  "isCookieNameValid ''sid''" "isCookieNameValid ''session-key''"
  "\<not> isCookieNameValid []" "\<not> isCookieNameValid ''a b''"
  by (simp_all add: isCookieNameValid_def isToken_def)

text \<open>
  The whole cycle: a successful \<^verbatim>\<open>Save\<close> followed by \<^verbatim>\<open>New\<close> on a request that
  carries the cookie just set, for a codec that decodes what it encoded and a payload
  encoder that decodes, into an empty map, what it encoded.
\<close>

lemma Save_then_New:
  assumes "deref h (SOptions session) = Some opts" and "0 \<le> MaxAge opts"
    and "deref h (Options s) = Some defaults"
    and "gobEncode L (Values session) = Inr buf"
    and "gobDecode L buf Map.empty = (Values session, None)"
    and "sid = (if ID session = '''' then TrimRight (EncodeToString key) ''='' else ID session)"
    and "EncodeMulti L (name session) sid (Codecs s) = Inr encoded"
    and "DecodeMulti L (name session) encoded (Codecs s) = Inr sid"
    and "Cookie r (name session) = Some encoded"
  shows "\<exists>db1 db2 session'.
           Save L now key None s h db w session =
             Return (session\<lparr>ID := sid\<rparr>, db1,
                     w @ [\<lparr>Name = name session, Value = encoded, Attrs = opts\<rparr>], None) \<and>
           New L None s h db1 r (name session) = Return (db2, session', None) \<and>
           ID session' = sid \<and> Values session' = Values session \<and> \<not> IsNew session'"
proof -
  define session1 where
    "session1 = (if ID session = '''' then session\<lparr>ID := TrimRight (EncodeToString key) ''=''\<rparr> else session)"
  have s1: "session1 = session\<lparr>ID := sid\<rparr>"
    by (simp add: session1_def assms(6))
  have d1: "deref h (SOptions session1) = Some opts" and v1: "gobEncode L (Values session1) = Inr buf"
    using assms(1,4) by (simp_all add: s1)
  define doc where "doc = \<lparr>Id' = sid,
      Expires = now + int64 ((if MaxAge opts = 0 then DefaultMaxAge s else MaxAge opts) * Second),
      Session = buf\<rparr>"
  define db1 where "db1 = \<lparr>rows = fst (apply_query (ReplaceQ sid doc) (rows db)),
      queries = queries db @ [ReplaceQ sid doc]\<rparr>"
  have sv: "save L now None s h db session1 = Return (db1, None)"
    using save_run [OF v1 d1, of now None s db] by (simp add: db1_def doc_def s1)
  have S: "Save L now key None s h db w session =
             Return (session\<lparr>ID := sid\<rparr>, db1,
                     w @ [\<lparr>Name = name session, Value = encoded, Attrs = opts\<rparr>], None)"
    unfolding Save_nonnegative [OF assms(1,2) session1_def] sv
    using assms(7) by (simp add: s1 SetCookie_def NewCookie_def)
  have fd: "find (\<lambda>d. Id' d = sid) (rows db1) = Some (written doc)"
    using find_replaced [of doc sid "rows db"] by (simp add: db1_def doc_def)
  have N: "New L None s h db1 r (name session) =
      Return (db1\<lparr>queries := queries db1 @ [GetQ sid]\<rparr>,
        \<lparr>ID = sid, Values = Values session, SOptions = Options s, IsNew = False, name = name session\<rparr>,
        None)"
    using assms(3,5,8,9) fd
    by (simp add: New_def load_def Run_None NewSession_def doc_def written_def)
  from S N show ?thesis by simp
qed

section \<open>The claims\<close>




text \<open>
  Claim C2. Let the session's \<^verbatim>\<open>MaxAge\<close> be non-negative. If serialising the values
  fails, or the upsert fails, or encoding the identifier fails, \<^verbatim>\<open>Save\<close> returns that
  error and the response is the one it was given: no cookie has been set. More generally
  every return of \<^verbatim>\<open>Save\<close> with an error leaves the response unchanged.
\<close>

theorem Save_failure_sets_no_cookie:
  assumes "deref h (SOptions session) = Some opts" and "0 \<le> MaxAge opts"
  shows "(gobEncode L (Values session) = Inl err \<longrightarrow>
            (\<exists>session' db'. Save L now key fault s h db w session = Return (session', db', w, Some err)))
       \<and> (gobEncode L (Values session) = Inr buf \<and> fault = Some err \<longrightarrow>
            (\<exists>session' db'. Save L now key fault s h db w session = Return (session', db', w, Some err)))
       \<and> (gobEncode L (Values session) = Inr buf \<and> fault = None \<and>
          EncodeMulti L (name session)
            (if ID session = '''' then TrimRight (EncodeToString key) ''='' else ID session)
            (Codecs s) = Inl err \<longrightarrow>
            (\<exists>session' db'. Save L now key fault s h db w session = Return (session', db', w, Some err)))
       \<and> (\<forall>session' db' w' e. Save L now key fault s h db w session = Return (session', db', w', Some e)
            \<longrightarrow> w' = w)"
proof -
  define session1 where
    "session1 = (if ID session = '''' then session\<lparr>ID := TrimRight (EncodeToString key) ''=''\<rparr> else session)"
  have d1: "deref h (SOptions session1) = Some opts" and v1: "Values session1 = Values session"
    and n1: "name session1 = name session"
    and i1: "ID session1 = (if ID session = '''' then TrimRight (EncodeToString key) ''='' else ID session)"
    using assms(1) by (simp_all add: session1_def)
  note S = Save_nonnegative [OF assms session1_def]
  have a: "gobEncode L (Values session) = Inl err \<longrightarrow>
            (\<exists>session' db'. Save L now key fault s h db w session = Return (session', db', w, Some err))"
    using save_encode_error [of L session1 err now fault s h db] by (simp add: S v1)
  have b: "gobEncode L (Values session) = Inr buf \<and> fault = Some err \<longrightarrow>
            (\<exists>session' db'. Save L now key fault s h db w session = Return (session', db', w, Some err))"
    using save_run [of L session1 buf h opts now fault s db] d1 by (auto simp add: S v1)
  have c: "gobEncode L (Values session) = Inr buf \<and> fault = None \<and>
          EncodeMulti L (name session)
            (if ID session = '''' then TrimRight (EncodeToString key) ''='' else ID session)
            (Codecs s) = Inl err \<longrightarrow>
            (\<exists>session' db'. Save L now key fault s h db w session = Return (session', db', w, Some err))"
    using save_run [of L session1 buf h opts now fault s db] d1 by (auto simp add: S v1 n1 i1)
  have d: "\<forall>session' db' w' e. Save L now key fault s h db w session = Return (session', db', w', Some e)
            \<longrightarrow> w' = w"
    unfolding S by (auto split: exec.splits option.splits sum.splits)
  from a b c d show ?thesis by blast
qed

theorem Save_failure_sets_no_cookie_witness:
  "Save demo_libs 100 [] None demo_store [demo_options 3600] (demo_db []) [] (demo_session ''X'' 255)
     = Return (demo_session ''X'' 255, demo_db [], [], Some (ErrGob ''gob: type not registered''))
   \<and> (\<exists>session' db'. Save demo_libs 100 [] (Some (ErrDatabase ''connection closed'')) demo_store
          [demo_options 3600] (demo_db []) [] (demo_session ''X'' 7)
        = Return (session', db', [], Some (ErrDatabase ''connection closed'')))
   \<and> (\<exists>session' db'. Save demo_libs 100 [] None (demo_store\<lparr>Codecs := []\<rparr>)
          [demo_options 3600] (demo_db []) [] (demo_session ''X'' 7)
        = Return (session', db', [], Some (ErrCodec ''securecookie: no codecs provided'')))"
  using Save_failure_sets_no_cookie [of "[demo_options 3600]" "demo_session ''X'' 255" "demo_options 3600"
      demo_libs "ErrGob ''gob: type not registered''" 100 "[]" None demo_store "demo_db []" "[]" "[]"]
    Save_failure_sets_no_cookie [of "[demo_options 3600]" "demo_session ''X'' 7" "demo_options 3600"
      demo_libs "ErrDatabase ''connection closed''" 100 "[]" "Some (ErrDatabase ''connection closed'')"
      demo_store "demo_db []" "[]" "[7]"]
    Save_failure_sets_no_cookie [of "[demo_options 3600]" "demo_session ''X'' 7" "demo_options 3600"
      demo_libs "ErrCodec ''securecookie: no codecs provided''" 100 "[]" None
      "demo_store\<lparr>Codecs := []\<rparr>" "demo_db []" "[]" "[7]"]
  by (simp add: deref_def demo_options_def demo_session_def demo_libs_def demo_store_def demo_db_def
      Save_def save_def)




text \<open>
  Claim C4 does not hold of \<^verbatim>\<open>New\<close>. With a cookie that decodes to the ID of a record
  whose payload does not decode, \<^verbatim>\<open>load\<close> reports the decode error, and \<^verbatim>\<open>New\<close>
  returns a session with \<^verbatim>\<open>IsNew\<close> true and empty values, but a nil error.
\<close>

theorem New_drops_load_error:
  "load demo_libs None demo_store (demo_db [\<lparr>Id' = ''X'', Expires = 5000, Session = [7, 7]\<rparr>])
      \<lparr>ID = ''X'', Values = Map.empty, SOptions = 1, IsNew = True, name = ''sid''\<rparr>
     = (\<lparr>rows = [\<lparr>Id' = ''X'', Expires = 5000, Session = [7, 7]\<rparr>], queries = [GetQ ''X'']\<rparr>,
        \<lparr>ID = ''X'', Values = Map.empty, SOptions = 1, IsNew = True, name = ''sid''\<rparr>,
        True, Some (ErrGob ''gob: unexpected EOF''))
   \<and> New demo_libs None demo_store [demo_options 3600]
      (demo_db [\<lparr>Id' = ''X'', Expires = 5000, Session = [7, 7]\<rparr>])
      \<lparr>cookies = [(''sid'', ''signed:X'')]\<rparr> ''sid''
     = Return (\<lparr>rows = [\<lparr>Id' = ''X'', Expires = 5000, Session = [7, 7]\<rparr>], queries = [GetQ ''X'']\<rparr>,
               \<lparr>ID = ''X'', Values = Map.empty, SOptions = 1, IsNew = True, name = ''sid''\<rparr>,
               None)"
  by (simp add: New_def load_def Run_def deref_def Cookie_def NewSession_def
      demo_libs_def demo_store_def demo_db_def)

text \<open>
  Claim C5, as amended. Let the session's \<^verbatim>\<open>MaxAge\<close> be non-negative and let \<open>age\<close>
  be \<^verbatim>\<open>MaxAge\<close>, or the store's \<^verbatim>\<open>DefaultMaxAge\<close> when \<^verbatim>\<open>MaxAge\<close> is 0. A
  successful \<^verbatim>\<open>Save\<close> at time \<open>now\<close> leaves under the session's ID a record whose
  \<^verbatim>\<open>Expires\<close> is what the driver writes for the time \<open>now\<close> plus the 64-bit product
  of \<open>age\<close> and \<^verbatim>\<open>time.Second\<close>, whatever the table held before. That is \<open>now\<close> plus
  \<open>age\<close> seconds provided \<open>age\<close> is between -9223372036 and 9223372036 (the product does
  not wrap around) and \<open>now\<close> plus \<open>age\<close> seconds is a time that \<^verbatim>\<open>UnixNano\<close> can hold
  (between \<open>- 2 ^ 63\<close> and \<open>2 ^ 63 - 1\<close> nanoseconds from the epoch, the years 1678 to
  2262). Saving the resulting session again, with the same options, at any time \<open>now2\<close>
  stores an \<^verbatim>\<open>Expires\<close> computed from \<open>now2\<close> in the same way; it is not smaller than
  the first when \<open>now2\<close> is not before \<open>now\<close> and both expiry times are ones that
  \<^verbatim>\<open>UnixNano\<close> can hold.
\<close>

theorem Save_expires_recomputed:
  assumes "deref h (SOptions session) = Some opts" and "0 \<le> MaxAge opts"
    and "gobEncode L (Values session) = Inr buf"
    and "age = (if MaxAge opts = 0 then DefaultMaxAge s else MaxAge opts)"
  shows "\<exists>session1 db1 w1 err1 r1.
           Save L now key None s h db w session = Return (session1, db1, w1, err1) \<and>
           find (\<lambda>d. Id' d = ID session1) (rows db1) = Some r1 \<and>
           Expires r1 = timePseudoTypeEncoder (now + int64 (age * Second)) \<and>
           (- 9223372036 \<le> age \<and> age \<le> 9223372036 \<and>
            - (2 ^ 63) \<le> now + age * 1000000000 \<and> now + age * 1000000000 < 2 ^ 63
              \<longrightarrow> Expires r1 = now + age * 1000000000) \<and>
           (\<forall>now2 key2.
              (\<exists>session2 db2 w2 err2 r2.
                 Save L now2 key2 None s h db1 w1 session1 = Return (session2, db2, w2, err2) \<and>
                 find (\<lambda>d. Id' d = ID session2) (rows db2) = Some r2 \<and>
                 Expires r2 = timePseudoTypeEncoder (now2 + int64 (age * Second)) \<and>
                 (now \<le> now2 \<and> - (2 ^ 63) \<le> now + int64 (age * Second) \<and>
                  now2 + int64 (age * Second) < 2 ^ 63 \<longrightarrow> Expires r1 \<le> Expires r2)))"
proof -
  define sid where "sid = (if ID session = '''' then TrimRight (EncodeToString key) ''='' else ID session)"
  define d where "d = int64 (age * Second)"
  obtain db1 w1 err1 where
    S1: "Save L now key None s h db w session = Return (session\<lparr>ID := sid\<rparr>, db1, w1, err1)" and
    F1: "find (\<lambda>d. Id' d = sid) (rows db1) =
           Some \<lparr>Id' = sid, Expires = timePseudoTypeEncoder (now + int64 (age * Second)),
                 Session = buf\<rparr>"
    using Save_stores_record [OF assms(1,2,3) sid_def assms(4)] by blast
  define r1 where "r1 = \<lparr>Id' = sid, Expires = timePseudoTypeEncoder (now + int64 (age * Second)),
      Session = buf\<rparr>"
  have e1: "Expires r1 = timePseudoTypeEncoder (now + d)"
    by (simp add: r1_def d_def)
  have bound: "- 9223372036 \<le> age \<and> age \<le> 9223372036 \<and>
            - (2 ^ 63) \<le> now + age * 1000000000 \<and> now + age * 1000000000 < 2 ^ 63
              \<longrightarrow> Expires r1 = now + age * 1000000000"
  proof
    assume a: "- 9223372036 \<le> age \<and> age \<le> 9223372036 \<and>
            - (2 ^ 63) \<le> now + age * 1000000000 \<and> now + age * 1000000000 < 2 ^ 63"
    then have "d = age * 1000000000"
      unfolding d_def Second_def by (intro int64_id) simp_all
    with a show "Expires r1 = now + age * 1000000000"
      unfolding e1 by (simp add: timePseudoTypeEncoder_id)
  qed
  have again: "\<exists>session2 db2 w2 err2 r2.
                 Save L now2 key2 None s h db1 w1 (session\<lparr>ID := sid\<rparr>) = Return (session2, db2, w2, err2) \<and>
                 find (\<lambda>d. Id' d = ID session2) (rows db2) = Some r2 \<and>
                 Expires r2 = timePseudoTypeEncoder (now2 + int64 (age * Second)) \<and>
                 (now \<le> now2 \<and> - (2 ^ 63) \<le> now + int64 (age * Second) \<and>
                  now2 + int64 (age * Second) < 2 ^ 63 \<longrightarrow> Expires r1 \<le> Expires r2)" for now2 key2
  proof -
    define sid2 where "sid2 = (if ID (session\<lparr>ID := sid\<rparr>) = '''' then TrimRight (EncodeToString key2) ''=''
        else ID (session\<lparr>ID := sid\<rparr>))"
    have "\<exists>db' w' err.
           Save L now2 key2 None s h db1 w1 (session\<lparr>ID := sid\<rparr>)
             = Return (session\<lparr>ID := sid\<rparr>\<lparr>ID := sid2\<rparr>, db', w', err) \<and>
           find (\<lambda>d. Id' d = sid2) (rows db') =
             Some \<lparr>Id' = sid2, Expires = timePseudoTypeEncoder (now2 + int64 (age * Second)),
                   Session = buf\<rparr> \<and>
           list_all (\<lambda>d. Id' d \<noteq> sid2 \<or>
                          Expires d = timePseudoTypeEncoder (now2 + int64 (age * Second))) (rows db')"
      using assms by (intro Save_stores_record [where opts = opts]) (simp_all add: sid2_def)
    then obtain db' w' err where
      S2: "Save L now2 key2 None s h db1 w1 (session\<lparr>ID := sid\<rparr>)
             = Return (session\<lparr>ID := sid\<rparr>\<lparr>ID := sid2\<rparr>, db', w', err)" and
      F2: "find (\<lambda>d. Id' d = sid2) (rows db') =
             Some \<lparr>Id' = sid2, Expires = timePseudoTypeEncoder (now2 + int64 (age * Second)),
                   Session = buf\<rparr>"
      by blast
    define r2 where "r2 = \<lparr>Id' = sid2, Expires = timePseudoTypeEncoder (now2 + int64 (age * Second)),
        Session = buf\<rparr>"
    have e2: "Expires r2 = timePseudoTypeEncoder (now2 + d)"
      by (simp add: r2_def d_def)
    have mono: "now \<le> now2 \<and> - (2 ^ 63) \<le> now + d \<and> now2 + d < 2 ^ 63 \<longrightarrow> Expires r1 \<le> Expires r2"
    proof
      assume m: "now \<le> now2 \<and> - (2 ^ 63) \<le> now + d \<and> now2 + d < 2 ^ 63"
      then have "timePseudoTypeEncoder (now + d) = now + d"
        and "timePseudoTypeEncoder (now2 + d) = now2 + d"
        by (simp_all add: timePseudoTypeEncoder_id)
      with m show "Expires r1 \<le> Expires r2" unfolding e1 e2 by simp
    qed
    have f2: "find (\<lambda>d. Id' d = ID (session\<lparr>ID := sid\<rparr>\<lparr>ID := sid2\<rparr>)) (rows db') = Some r2"
      using F2 by (simp add: r2_def)
    have x2: "Expires r2 = timePseudoTypeEncoder (now2 + int64 (age * Second))"
      by (simp add: r2_def)
    from S2 f2 x2 mono show ?thesis unfolding d_def by blast
  qed
  have f1: "find (\<lambda>d. Id' d = ID (session\<lparr>ID := sid\<rparr>)) (rows db1) = Some r1"
    using F1 by (simp add: r1_def)
  have x1: "Expires r1 = timePseudoTypeEncoder (now + int64 (age * Second))"
    by (simp add: r1_def)
  from S1 f1 x1 bound again show ?thesis by blast
qed

theorem Save_expires_recomputed_witness:
  "(\<exists>session1 db1 w1 err1 r1.
      Save demo_libs 100 [] None demo_store [demo_options 3600] (demo_db []) [] (demo_session ''X'' 7)
        = Return (session1, db1, w1, err1) \<and>
      find (\<lambda>d. Id' d = ID session1) (rows db1) = Some r1 \<and>
      Expires r1 = 3600000000100 \<and>
      (\<exists>session2 db2 w2 err2 r2.
         Save demo_libs 200 [] None demo_store [demo_options 3600] db1 w1 session1
           = Return (session2, db2, w2, err2) \<and>
         find (\<lambda>d. Id' d = ID session2) (rows db2) = Some r2 \<and>
         Expires r2 = 3600000000200 \<and> Expires r1 \<le> Expires r2))
   \<and> (\<exists>session1 db1 w1 err1 r1.
      Save demo_libs 100 [] None (demo_store\<lparr>DefaultMaxAge := 7200\<rparr>) [demo_options 0] (demo_db [])
        [] (demo_session ''X'' 7) = Return (session1, db1, w1, err1) \<and>
      find (\<lambda>d. Id' d = ID session1) (rows db1) = Some r1 \<and>
      Expires r1 = 7200000000100)"
proof -
  have g: "gobEncode demo_libs (Values (demo_session ''X'' 7)) = Inr [7]"
    by (simp add: demo_libs_def demo_session_def)
  have d1: "deref [demo_options 3600] (SOptions (demo_session ''X'' 7)) = Some (demo_options 3600)"
    by (simp add: deref_def demo_session_def)
  have m1: "0 \<le> MaxAge (demo_options 3600)"
    by (simp add: demo_options_def)
  have a1: "3600 = (if MaxAge (demo_options 3600) = 0 then DefaultMaxAge demo_store
                    else MaxAge (demo_options 3600))"
    by (simp add: demo_options_def)
  have d2: "deref [demo_options 0] (SOptions (demo_session ''X'' 7)) = Some (demo_options 0)"
    by (simp add: deref_def demo_session_def)
  have m2: "0 \<le> MaxAge (demo_options 0)"
    by (simp add: demo_options_def)
  have a2: "7200 = (if MaxAge (demo_options 0) = 0 then DefaultMaxAge (demo_store\<lparr>DefaultMaxAge := 7200\<rparr>)
                    else MaxAge (demo_options 0))"
    by (simp add: demo_options_def)
  have i1: "int64 (3600 * Second) = 3600000000000" and i2: "int64 (7200 * Second) = 7200000000000"
    by (simp_all add: int64_def Second_def)
  have t1: "timePseudoTypeEncoder (100 + 3600000000000) = 3600000000100"
    and t2: "timePseudoTypeEncoder (200 + 3600000000000) = 3600000000200"
    and t3: "timePseudoTypeEncoder (100 + 7200000000000) = 7200000000100"
    by (simp_all add: timePseudoTypeEncoder_def int64_def)
  from Save_expires_recomputed [OF d1 m1 g a1, of 100 "[]" "demo_db []" "[]"]
  obtain session1 db1 w1 err1 r1 where
    s1: "Save demo_libs 100 [] None demo_store [demo_options 3600] (demo_db []) [] (demo_session ''X'' 7)
        = Return (session1, db1, w1, err1)"
    and f1: "find (\<lambda>d. Id' d = ID session1) (rows db1) = Some r1"
    and e1: "Expires r1 = timePseudoTypeEncoder (100 + int64 (3600 * Second))"
    and again: "\<forall>now2 key2.
              (\<exists>session2 db2 w2 err2 r2.
                 Save demo_libs now2 key2 None demo_store [demo_options 3600] db1 w1 session1
                   = Return (session2, db2, w2, err2) \<and>
                 find (\<lambda>d. Id' d = ID session2) (rows db2) = Some r2 \<and>
                 Expires r2 = timePseudoTypeEncoder (now2 + int64 (3600 * Second)) \<and>
                 (100 \<le> now2 \<and> - (2 ^ 63) \<le> 100 + int64 (3600 * Second) \<and>
                  now2 + int64 (3600 * Second) < 2 ^ 63 \<longrightarrow> Expires r1 \<le> Expires r2))"
    by blast
  from again have "\<exists>session2 db2 w2 err2 r2.
                 Save demo_libs 200 [] None demo_store [demo_options 3600] db1 w1 session1
                   = Return (session2, db2, w2, err2) \<and>
                 find (\<lambda>d. Id' d = ID session2) (rows db2) = Some r2 \<and>
                 Expires r2 = timePseudoTypeEncoder (200 + int64 (3600 * Second)) \<and>
                 ((100::int) \<le> 200 \<and> - (2 ^ 63) \<le> 100 + int64 (3600 * Second) \<and>
                  200 + int64 (3600 * Second) < 2 ^ 63 \<longrightarrow> Expires r1 \<le> Expires r2)"
    by blast
  then have "\<exists>session2 db2 w2 err2 r2.
                 Save demo_libs 200 [] None demo_store [demo_options 3600] db1 w1 session1
                   = Return (session2, db2, w2, err2) \<and>
                 find (\<lambda>d. Id' d = ID session2) (rows db2) = Some r2 \<and>
                 Expires r2 = 3600000000200 \<and> Expires r1 \<le> Expires r2"
    unfolding i1 t2 by simp
  with s1 f1 e1 have first: "\<exists>session1 db1 w1 err1 r1.
      Save demo_libs 100 [] None demo_store [demo_options 3600] (demo_db []) [] (demo_session ''X'' 7)
        = Return (session1, db1, w1, err1) \<and>
      find (\<lambda>d. Id' d = ID session1) (rows db1) = Some r1 \<and>
      Expires r1 = 3600000000100 \<and>
      (\<exists>session2 db2 w2 err2 r2.
         Save demo_libs 200 [] None demo_store [demo_options 3600] db1 w1 session1
           = Return (session2, db2, w2, err2) \<and>
         find (\<lambda>d. Id' d = ID session2) (rows db2) = Some r2 \<and>
         Expires r2 = 3600000000200 \<and> Expires r1 \<le> Expires r2)"
    unfolding i1 t1 by blast
  from Save_expires_recomputed [OF d2 m2 g a2, of 100 "[]" "demo_db []" "[]"]
  have second: "\<exists>session1 db1 w1 err1 r1.
      Save demo_libs 100 [] None (demo_store\<lparr>DefaultMaxAge := 7200\<rparr>) [demo_options 0] (demo_db [])
        [] (demo_session ''X'' 7) = Return (session1, db1, w1, err1) \<and>
      find (\<lambda>d. Id' d = ID session1) (rows db1) = Some r1 \<and>
      Expires r1 = 7200000000100"
    unfolding i2 t3 by blast
  from first second show ?thesis by (rule conjI)
qed

text \<open>
  The claim as written fails in each of the ways the amended claim excludes, here at a
  clock reading of November 2026. With \<^verbatim>\<open>MaxAge = 7500000000\<close> the expiry lies beyond
  the year 2262 and is written wrapped around, about 290 years before the epoch; with
  \<^verbatim>\<open>MaxAge = 9223372037\<close> the duration itself wraps around; a session saved first in
  2023 and again in 2026 with \<^verbatim>\<open>MaxAge = 7500000000\<close> gets a smaller expiry the second
  time; so does a session saved again after its \<^verbatim>\<open>MaxAge\<close> was lowered, or after the
  clock was set back.
\<close>

theorem Save_expires_overflow_counterexample:
  "Save demo_libs 1793651569065272020 [] None demo_store [demo_options 7500000000] (demo_db []) []
        (demo_session ''X'' 7)
     = Return (demo_session ''X'' 7,
         \<lparr>rows = [\<lparr>Id' = ''X'', Expires = - 9153092504644279596, Session = [7]\<rparr>],
          queries = [ReplaceQ ''X'' \<lparr>Id' = ''X'', Expires = 9293651569065272020, Session = [7]\<rparr>]\<rparr>,
         [\<lparr>Name = ''sid'', Value = ''signed:X'', Attrs = demo_options 7500000000\<rparr>], None)
   \<and> (- 9153092504644279596 :: int) \<noteq> 1793651569065272020 + 7500000000 * 1000000000
   \<and> Save demo_libs 1793651569065272020 [] None demo_store [demo_options 9223372037] (demo_db []) []
        (demo_session ''X'' 7)
     = Return (demo_session ''X'' 7,
         \<lparr>rows = [\<lparr>Id' = ''X'', Expires = - 7429720467644279596, Session = [7]\<rparr>],
          queries = [ReplaceQ ''X'' \<lparr>Id' = ''X'', Expires = - 7429720467644279596, Session = [7]\<rparr>]\<rparr>,
         [\<lparr>Name = ''sid'', Value = ''signed:X'', Attrs = demo_options 9223372037\<rparr>], None)
   \<and> (- 7429720467644279596 :: int) \<noteq> 1793651569065272020 + 9223372037 * 1000000000
   \<and> Save demo_libs 1700000000000000000 [] None demo_store [demo_options 7500000000] (demo_db []) []
        (demo_session ''X'' 7)
     = Return (demo_session ''X'' 7,
         \<lparr>rows = [\<lparr>Id' = ''X'', Expires = 9200000000000000000, Session = [7]\<rparr>],
          queries = [ReplaceQ ''X'' \<lparr>Id' = ''X'', Expires = 9200000000000000000, Session = [7]\<rparr>]\<rparr>,
         [\<lparr>Name = ''sid'', Value = ''signed:X'', Attrs = demo_options 7500000000\<rparr>], None)
   \<and> Save demo_libs 1793651569065272020 [] None demo_store [demo_options 7500000000]
        \<lparr>rows = [\<lparr>Id' = ''X'', Expires = 9200000000000000000, Session = [7]\<rparr>], queries = []\<rparr> []
        (demo_session ''X'' 7)
     = Return (demo_session ''X'' 7,
         \<lparr>rows = [\<lparr>Id' = ''X'', Expires = - 9153092504644279596, Session = [7]\<rparr>],
          queries = [ReplaceQ ''X'' \<lparr>Id' = ''X'', Expires = 9293651569065272020, Session = [7]\<rparr>]\<rparr>,
         [\<lparr>Name = ''sid'', Value = ''signed:X'', Attrs = demo_options 7500000000\<rparr>], None)
   \<and> (- 9153092504644279596 :: int) < 9200000000000000000
   \<and> Save demo_libs 200 [] None demo_store [demo_options 60]
        \<lparr>rows = [\<lparr>Id' = ''X'', Expires = 3600000000100, Session = [7]\<rparr>], queries = []\<rparr> []
        (demo_session ''X'' 7)
     = Return (demo_session ''X'' 7,
         \<lparr>rows = [\<lparr>Id' = ''X'', Expires = 60000000200, Session = [7]\<rparr>],
          queries = [ReplaceQ ''X'' \<lparr>Id' = ''X'', Expires = 60000000200, Session = [7]\<rparr>]\<rparr>,
         [\<lparr>Name = ''sid'', Value = ''signed:X'', Attrs = demo_options 60\<rparr>], None)
   \<and> (60000000200 :: int) < 3600000000100
   \<and> Save demo_libs 50 [] None demo_store [demo_options 3600]
        \<lparr>rows = [\<lparr>Id' = ''X'', Expires = 3600000000100, Session = [7]\<rparr>], queries = []\<rparr> []
        (demo_session ''X'' 7)
     = Return (demo_session ''X'' 7,
         \<lparr>rows = [\<lparr>Id' = ''X'', Expires = 3600000000050, Session = [7]\<rparr>],
          queries = [ReplaceQ ''X'' \<lparr>Id' = ''X'', Expires = 3600000000050, Session = [7]\<rparr>]\<rparr>,
         [\<lparr>Name = ''sid'', Value = ''signed:X'', Attrs = demo_options 3600\<rparr>], None)
   \<and> (3600000000050 :: int) < 3600000000100"
  by (simp add: Save_def save_def Run_def deref_def written_def timePseudoTypeEncoder_def
      demo_options_def demo_session_def demo_libs_def demo_store_def demo_db_def int64_def Second_def
      SetCookie_def NewCookie_def)

text \<open>
  Claim C6. With a non-negative \<^verbatim>\<open>MaxAge\<close>, \<^verbatim>\<open>Save\<close> returns a session whose ID is
  the one it had when that was not empty, and otherwise the base-32 encoding of the random
  key with the trailing \<^verbatim>\<open>=\<close> removed (also when the save then fails). Such an
  identifier consists of characters of the base-32 alphabet only, none of them the
  padding character; it has 52 characters for a key of 32 bytes; and two different keys
  never give the same identifier.
\<close>

theorem Save_assigns_base32_id:
  assumes "deref h (SOptions session) = Some opts" and "0 \<le> MaxAge opts"
  shows "(\<exists>session' db' w' err.
            Save L now key fault s h db w session = Return (session', db', w', err) \<and>
            ID session' = (if ID session = '''' then TrimRight (EncodeToString key) ''=''
                           else ID session))
       \<and> set (TrimRight (EncodeToString key) ''='') \<subseteq> set encodeStd
       \<and> CHR ''='' \<notin> set (TrimRight (EncodeToString key) ''='')
       \<and> (length key = 32 \<longrightarrow> length (TrimRight (EncodeToString key) ''='') = 52)
       \<and> (\<forall>key'. key' \<noteq> key \<longrightarrow>
            TrimRight (EncodeToString key') ''='' \<noteq> TrimRight (EncodeToString key) ''='')"
proof -
  define session1 where
    "session1 = (if ID session = '''' then session\<lparr>ID := TrimRight (EncodeToString key) ''=''\<rparr> else session)"
  have d1: "deref h (SOptions session1) = Some opts"
    using assms(1) by (simp add: session1_def)
  obtain db' err where sv: "save L now fault s h db session1 = Return (db', err)"
    using save_returns [OF d1] by blast
  have "\<exists>w' e. Save L now key fault s h db w session = Return (session1, db', w', e)"
    unfolding Save_nonnegative [OF assms session1_def] sv
    by (cases err; cases "EncodeMulti L (name session1) (ID session1) (Codecs s)") simp_all
  moreover have "ID session1 = (if ID session = '''' then TrimRight (EncodeToString key) ''=''
                           else ID session)"
    by (simp add: session1_def)
  ultimately have a: "\<exists>session' db' w' err.
            Save L now key fault s h db w session = Return (session', db', w', err) \<and>
            ID session' = (if ID session = '''' then TrimRight (EncodeToString key) ''=''
                           else ID session)"
    by blast
  have b: "set (TrimRight (EncodeToString key) ''='') \<subseteq> set encodeStd"
    by (rule TrimRight_alphabet)
  have c: "CHR ''='' \<notin> set (TrimRight (EncodeToString key) ''='')"
    using b pad_not_in_alphabet by blast
  have d: "length key = 32 \<longrightarrow> length (TrimRight (EncodeToString key) ''='') = 52"
    by (simp add: TrimRight_length)
  have e: "\<forall>key'. key' \<noteq> key \<longrightarrow>
            TrimRight (EncodeToString key') ''='' \<noteq> TrimRight (EncodeToString key) ''=''"
    by (metis unblock_TrimRight)
  from a b c d e show ?thesis by blast
qed

theorem Save_assigns_base32_id_witness:
  "(\<exists>session' db' w' err.
      Save demo_libs 100 [0, 1, 2, 3, 4, 5, 6, 7, 8, 9, 10, 11, 12, 13, 14, 15, 16, 17, 18, 19,
          20, 21, 22, 23, 24, 25, 26, 27, 28, 29, 30, 31] None demo_store [demo_options 3600]
        (demo_db []) [] (demo_session '''' 7) = Return (session', db', w', err) \<and>
      ID session' = ''AAAQEAYEAUDAOCAJBIFQYDIOB4IBCEQTCQKRMFYYDENBWHA5DYPQ'')
   \<and> TrimRight (EncodeToString [1, 1, 2, 3, 4, 5, 6, 7, 8, 9, 10, 11, 12, 13, 14, 15, 16, 17, 18, 19,
          20, 21, 22, 23, 24, 25, 26, 27, 28, 29, 30, 31]) ''=''
       \<noteq> ''AAAQEAYEAUDAOCAJBIFQYDIOB4IBCEQTCQKRMFYYDENBWHA5DYPQ''"
proof -
  have h1: "deref [demo_options 3600] (SOptions (demo_session '''' 7)) = Some (demo_options 3600)"
    by (simp add: deref_def demo_session_def)
  have h2: "0 \<le> MaxAge (demo_options 3600)"
    by (simp add: demo_options_def)
  have k: "[1, 1, 2, 3, 4, 5, 6, 7, 8, 9, 10, 11, 12, 13, 14, 15, 16, 17, 18, 19,
          20, 21, 22, 23, 24, 25, 26, 27, 28, 29, 30, 31] \<noteq> [0, 1, 2, 3, 4, 5, 6, 7, 8, 9, 10, 11, 12, 13, 14, 15, 16, 17, 18, 19,
          20, 21, 22, 23, 24, 25, 26, 27, 28, 29, 30, 31 :: byte]"
    by simp
  have i: "ID (demo_session '''' 7) = ''''"
    by (simp add: demo_session_def)
  note T = Save_assigns_base32_id [OF h1 h2, of demo_libs 100 "[0, 1, 2, 3, 4, 5, 6, 7, 8, 9, 10, 11, 12, 13, 14, 15, 16, 17, 18, 19,
          20, 21, 22, 23, 24, 25, 26, 27, 28, 29, 30, 31]" None demo_store "demo_db []" "[]"]
  from T have "\<exists>session' db' w' err.
      Save demo_libs 100 [0, 1, 2, 3, 4, 5, 6, 7, 8, 9, 10, 11, 12, 13, 14, 15, 16, 17, 18, 19,
          20, 21, 22, 23, 24, 25, 26, 27, 28, 29, 30, 31] None demo_store [demo_options 3600]
        (demo_db []) [] (demo_session '''' 7) = Return (session', db', w', err) \<and>
      ID session' = (if ID (demo_session '''' 7) = ''''
         then TrimRight (EncodeToString [0, 1, 2, 3, 4, 5, 6, 7, 8, 9, 10, 11, 12, 13, 14, 15, 16, 17, 18, 19,
          20, 21, 22, 23, 24, 25, 26, 27, 28, 29, 30, 31]) ''='' else ID (demo_session '''' 7))"
    by blast
  then have a: "\<exists>session' db' w' err.
      Save demo_libs 100 [0, 1, 2, 3, 4, 5, 6, 7, 8, 9, 10, 11, 12, 13, 14, 15, 16, 17, 18, 19,
          20, 21, 22, 23, 24, 25, 26, 27, 28, 29, 30, 31] None demo_store [demo_options 3600]
        (demo_db []) [] (demo_session '''' 7) = Return (session', db', w', err) \<and>
      ID session' = ''AAAQEAYEAUDAOCAJBIFQYDIOB4IBCEQTCQKRMFYYDENBWHA5DYPQ''"
    unfolding i b32_key by simp
  from T k have "TrimRight (EncodeToString [1, 1, 2, 3, 4, 5, 6, 7, 8, 9, 10, 11, 12, 13, 14, 15, 16, 17, 18, 19,
          20, 21, 22, 23, 24, 25, 26, 27, 28, 29, 30, 31]) ''=''
       \<noteq> TrimRight (EncodeToString [0, 1, 2, 3, 4, 5, 6, 7, 8, 9, 10, 11, 12, 13, 14, 15, 16, 17, 18, 19,
          20, 21, 22, 23, 24, 25, 26, 27, 28, 29, 30, 31]) ''=''"
    by blast
  then have b: "TrimRight (EncodeToString [1, 1, 2, 3, 4, 5, 6, 7, 8, 9, 10, 11, 12, 13, 14, 15, 16, 17, 18, 19,
          20, 21, 22, 23, 24, 25, 26, 27, 28, 29, 30, 31]) ''=''
       \<noteq> ''AAAQEAYEAUDAOCAJBIFQYDIOB4IBCEQTCQKRMFYYDENBWHA5DYPQ''"
    unfolding b32_key .
  from a b show ?thesis by (rule conjI)
qed

text \<open>
  Claim C7. When \<^verbatim>\<open>DeleteExpired\<close> returns no error, the query it sent is the range
  deletion from \<^verbatim>\<open>r.MinVal\<close> to the current time over the index \<^verbatim>\<open>expires\<close>; the
  rows left are, in their order and unchanged, exactly those whose \<^verbatim>\<open>Expires\<close> is not
  before the current time (the upper bound is open: a record expiring at this very
  instant stays); and \<^verbatim>\<open>Count\<close> on the result returns the number of rows left.
\<close>

theorem DeleteExpired_removes_past_records:
  assumes "DeleteExpired fault now s db = (db1, None)"
  shows "rows db1 = filter (\<lambda>d. now \<le> Expires d) (rows db)
       \<and> queries db1 = queries db @ [BetweenDeleteQ MinVal (At now) ''expires'']
       \<and> (\<forall>d. d \<in> set (rows db1) \<longleftrightarrow> d \<in> set (rows db) \<and> \<not> Expires d < now)
       \<and> Count None s db1 =
           (db1\<lparr>queries := queries db1 @ [CountQ]\<rparr>,
            length (filter (\<lambda>d. now \<le> Expires d) (rows db)), None)"
proof -
  have f: "fault = None"
    using assms by (cases fault) (simp_all add: DeleteExpired_def Run_def)
  have nl: "(\<lambda>d. \<not> Expires d < now) = (\<lambda>d. now \<le> Expires d)"
    by (auto simp: fun_eq_iff)
  have r: "db1 = \<lparr>rows = filter (\<lambda>d. now \<le> Expires d) (rows db),
                   queries = queries db @ [BetweenDeleteQ MinVal (At now) ''expires'']\<rparr>"
    using assms unfolding f by (simp add: DeleteExpired_def Run_None nl)
  have c: "Count None s db1 =
           (db1\<lparr>queries := queries db1 @ [CountQ]\<rparr>, length (rows db1), None)"
    by (simp add: Count_def Run_None)
  show ?thesis
    unfolding c unfolding r by auto
qed

theorem DeleteExpired_removes_past_records_witness:
  "DeleteExpired None 1000 demo_store
      (demo_db [\<lparr>Id' = ''A'', Expires = 999, Session = [1]\<rparr>,
                \<lparr>Id' = ''B'', Expires = 1000, Session = [2]\<rparr>,
                \<lparr>Id' = ''C'', Expires = 1001, Session = [3]\<rparr>])
     = (\<lparr>rows = [\<lparr>Id' = ''B'', Expires = 1000, Session = [2]\<rparr>,
                 \<lparr>Id' = ''C'', Expires = 1001, Session = [3]\<rparr>],
         queries = [BetweenDeleteQ MinVal (At 1000) ''expires'']\<rparr>, None)
   \<and> Count None demo_store
        \<lparr>rows = [\<lparr>Id' = ''B'', Expires = 1000, Session = [2]\<rparr>,
                 \<lparr>Id' = ''C'', Expires = 1001, Session = [3]\<rparr>],
         queries = [BetweenDeleteQ MinVal (At 1000) ''expires'']\<rparr>
     = (\<lparr>rows = [\<lparr>Id' = ''B'', Expires = 1000, Session = [2]\<rparr>,
                 \<lparr>Id' = ''C'', Expires = 1001, Session = [3]\<rparr>],
         queries = [BetweenDeleteQ MinVal (At 1000) ''expires'', CountQ]\<rparr>, 2, None)"
  using DeleteExpired_removes_past_records [of None 1000 demo_store
      "demo_db [\<lparr>Id' = ''A'', Expires = 999, Session = [1]\<rparr>,
                \<lparr>Id' = ''B'', Expires = 1000, Session = [2]\<rparr>,
                \<lparr>Id' = ''C'', Expires = 1001, Session = [3]\<rparr>]"
      "\<lparr>rows = [\<lparr>Id' = ''B'', Expires = 1000, Session = [2]\<rparr>,
                 \<lparr>Id' = ''C'', Expires = 1001, Session = [3]\<rparr>],
         queries = [BetweenDeleteQ MinVal (At 1000) ''expires'']\<rparr>"]
  by (simp add: DeleteExpired_def Run_def demo_db_def)

text \<open>
  Claim C8 does not hold of \<^verbatim>\<open>New\<close> where it says that the options are copied.
  Without a cookie \<^verbatim>\<open>New\<close> returns an empty new session, a nil error and the database
  untouched, but the session's Options pointer is the store's own: after
  \<^verbatim>\<open>MaxAge(60)\<close> on the store, the object the session points to has \<^verbatim>\<open>MaxAge = 60\<close>.
\<close>

theorem New_shares_store_options:
  "New demo_libs None demo_store [demo_options 2592000] (demo_db []) \<lparr>cookies = []\<rparr> ''sid''
     = Return (demo_db [],
               \<lparr>ID = '''', Values = Map.empty, SOptions = Options demo_store, IsNew = True,
                  name = ''sid''\<rparr>, None)
   \<and> RethinkStore_MaxAge 60 demo_store [demo_options 2592000]
     = Return ([demo_options 60], demo_store\<lparr>Codecs := [SecureCookie [1, 2, 3] [] 60]\<rparr>)
   \<and> deref [demo_options 2592000] (Options demo_store) = Some (demo_options 2592000)
   \<and> deref [demo_options 60] (Options demo_store) = Some (demo_options 60)"
  by (simp add: New_def RethinkStore_MaxAge_def deref_def Cookie_def NewSession_def
      demo_options_def demo_store_def demo_db_def)

text \<open>
  Claim C9. When the request carries a cookie of the session's name and
  \<^verbatim>\<open>DecodeMulti\<close> rejects its value, \<^verbatim>\<open>New\<close> returns a fresh session (empty ID,
  empty Values, \<^verbatim>\<open>IsNew\<close> true) together with the decode error. The database comes
  back as it was given, query log included, and the result is the same whatever the
  outcome \<open>fault\<close> a query would have had: no lookup is made.
\<close>

theorem New_rejected_cookie:
  assumes "deref h (Options s) = Some defaults"
      and "Cookie r nm = Some c"
      and "DecodeMulti L nm c (Codecs s) = Inl err"
  shows "New L fault s h db r nm =
           Return (db, \<lparr>ID = '''', Values = Map.empty, SOptions = Options s, IsNew = True, name = nm\<rparr>,
                   Some err)"
  using assms by (simp add: New_def NewSession_def)

theorem New_rejected_cookie_witness:
  "Cookie \<lparr>cookies = [(''sid'', ''signed;X'')]\<rparr> ''sid'' = Some ''signed;X''
   \<and> DecodeMulti demo_libs ''sid'' ''signed;X'' (Codecs demo_store)
       = Inl (ErrCodec ''securecookie: the value is not valid'')
   \<and> New demo_libs (Some (ErrDatabase ''connection closed'')) demo_store [demo_options 3600]
         (demo_db [\<lparr>Id' = ''X'', Expires = 5000, Session = [7]\<rparr>])
         \<lparr>cookies = [(''sid'', ''signed;X'')]\<rparr> ''sid''
       = Return (demo_db [\<lparr>Id' = ''X'', Expires = 5000, Session = [7]\<rparr>],
                 \<lparr>ID = '''', Values = Map.empty, SOptions = 1, IsNew = True, name = ''sid''\<rparr>,
                 Some (ErrCodec ''securecookie: the value is not valid''))"
  using New_rejected_cookie [of "[demo_options 3600]" demo_store "demo_options 3600"
      "\<lparr>cookies = [(''sid'', ''signed;X'')]\<rparr>" "''sid''" "''signed;X''" demo_libs
      "ErrCodec ''securecookie: the value is not valid''" "Some (ErrDatabase ''connection closed'')"
      "demo_db [\<lparr>Id' = ''X'', Expires = 5000, Session = [7]\<rparr>]"]
  by (simp add: deref_def demo_store_def demo_libs_def Cookie_def)

text \<open>
  Claim C10. A store returned by \<^verbatim>\<open>NewRethinkStore\<close> has \<^verbatim>\<open>DefaultMaxAge = 0\<close>. Hence
  a successful \<^verbatim>\<open>Save\<close>, at time \<open>now\<close>, of a session whose \<^verbatim>\<open>MaxAge\<close> is 0 stores a
  record whose \<^verbatim>\<open>Expires\<close> is what the driver writes for the time \<open>now\<close>. For every
  clock reading that \<^verbatim>\<open>UnixNano\<close> can hold (the years 1678 to 2262) that is
  \<^verbatim>\<open>Expires = now\<close>, and \<^verbatim>\<open>DeleteExpired\<close> at any later time removes every record
  of that ID.
\<close>

theorem NewRethinkStore_leaves_DefaultMaxAge_zero:
  assumes "NewRethinkStore conn dbname table keyPairs h0 db0 = Return (Inr (h1, db1, s))"
      and "deref h (SOptions session) = Some opts" and "MaxAge opts = 0"
      and "gobEncode L (Values session) = Inr buf"
  shows "DefaultMaxAge s = 0 \<and>
         (\<exists>session' db' w' err.
            Save L now key None s h db w session = Return (session', db', w', err) \<and>
            find (\<lambda>d. Id' d = ID session') (rows db') =
              Some \<lparr>Id' = ID session', Expires = timePseudoTypeEncoder now, Session = buf\<rparr> \<and>
            (- (2 ^ 63) \<le> now \<and> now < 2 ^ 63 \<longrightarrow>
               find (\<lambda>d. Id' d = ID session') (rows db') =
                 Some \<lparr>Id' = ID session', Expires = now, Session = buf\<rparr> \<and>
               (\<forall>now'. now < now' \<longrightarrow>
                  DeleteExpired None now' s db' =
                    (\<lparr>rows = filter (\<lambda>d. now' \<le> Expires d) (rows db'),
                      queries = queries db' @ [BetweenDeleteQ MinVal (At now') ''expires'']\<rparr>,
                     None) \<and>
                  find (\<lambda>d. Id' d = ID session') (filter (\<lambda>d. now' \<le> Expires d) (rows db'))
                    = None)))"
proof -
  have z: "DefaultMaxAge s = 0"
    using NewRethinkStore_result [OF assms(1)] by simp
  define sid where "sid = (if ID session = '''' then TrimRight (EncodeToString key) ''='' else ID session)"
  have age: "0 = (if MaxAge opts = 0 then DefaultMaxAge s else MaxAge opts)"
    using assms(3) z by simp
  obtain db' w' err where
    S: "Save L now key None s h db w session = Return (session\<lparr>ID := sid\<rparr>, db', w', err)" and
    F: "find (\<lambda>d. Id' d = sid) (rows db') =
          Some \<lparr>Id' = sid, Expires = timePseudoTypeEncoder now, Session = buf\<rparr>" and
    A: "list_all (\<lambda>d. Id' d \<noteq> sid \<or> Expires d = timePseudoTypeEncoder now) (rows db')"
    using Save_stores_record [OF assms(2) _ assms(4) sid_def age, of now db w] assms(3)
    by (auto simp: int64_def)
  have D: "DeleteExpired None now' s db' =
                 (\<lparr>rows = filter (\<lambda>d. now' \<le> Expires d) (rows db'),
                   queries = queries db' @ [BetweenDeleteQ MinVal (At now') ''expires'']\<rparr>, None)" for now'
  proof -
    have nl: "(\<lambda>d. \<not> Expires d < now') = (\<lambda>d. now' \<le> Expires d)"
      by (auto simp: fun_eq_iff)
    show ?thesis by (simp add: DeleteExpired_def Run_None nl)
  qed
  have G: "find (\<lambda>d. Id' d = sid) (filter (\<lambda>d. now' \<le> Expires d) (rows db')) = None"
    if "timePseudoTypeEncoder now = now" and "now < now'" for now'
    using A that by (auto simp: find_None_iff list_all_iff)
  have R: "- (2 ^ 63) \<le> now \<and> now < 2 ^ 63 \<longrightarrow>
               find (\<lambda>d. Id' d = sid) (rows db') = Some \<lparr>Id' = sid, Expires = now, Session = buf\<rparr> \<and>
               (\<forall>now'. now < now' \<longrightarrow>
                  DeleteExpired None now' s db' =
                    (\<lparr>rows = filter (\<lambda>d. now' \<le> Expires d) (rows db'),
                      queries = queries db' @ [BetweenDeleteQ MinVal (At now') ''expires'']\<rparr>,
                     None) \<and>
                  find (\<lambda>d. Id' d = sid) (filter (\<lambda>d. now' \<le> Expires d) (rows db')) = None)"
  proof
    assume r: "- (2 ^ 63) \<le> now \<and> now < 2 ^ 63"
    then have t: "timePseudoTypeEncoder now = now"
      by (simp add: timePseudoTypeEncoder_id)
    show "find (\<lambda>d. Id' d = sid) (rows db') = Some \<lparr>Id' = sid, Expires = now, Session = buf\<rparr> \<and>
               (\<forall>now'. now < now' \<longrightarrow>
                  DeleteExpired None now' s db' =
                    (\<lparr>rows = filter (\<lambda>d. now' \<le> Expires d) (rows db'),
                      queries = queries db' @ [BetweenDeleteQ MinVal (At now') ''expires'']\<rparr>,
                     None) \<and>
                  find (\<lambda>d. Id' d = sid) (filter (\<lambda>d. now' \<le> Expires d) (rows db')) = None)"
      using F D G [OF t] unfolding t by simp
  qed
  define session' where "session' = session\<lparr>ID := sid\<rparr>"
  have i: "ID session' = sid"
    by (simp add: session'_def)
  have S': "Save L now key None s h db w session = Return (session', db', w', err)"
    using S by (simp add: session'_def)
  have F': "find (\<lambda>d. Id' d = ID session') (rows db') =
              Some \<lparr>Id' = ID session', Expires = timePseudoTypeEncoder now, Session = buf\<rparr>"
    unfolding i by (rule F)
  have R': "- (2 ^ 63) \<le> now \<and> now < 2 ^ 63 \<longrightarrow>
               find (\<lambda>d. Id' d = ID session') (rows db') =
                 Some \<lparr>Id' = ID session', Expires = now, Session = buf\<rparr> \<and>
               (\<forall>now'. now < now' \<longrightarrow>
                  DeleteExpired None now' s db' =
                    (\<lparr>rows = filter (\<lambda>d. now' \<le> Expires d) (rows db'),
                      queries = queries db' @ [BetweenDeleteQ MinVal (At now') ''expires'']\<rparr>,
                     None) \<and>
                  find (\<lambda>d. Id' d = ID session') (filter (\<lambda>d. now' \<le> Expires d) (rows db'))
                    = None)"
    unfolding i by (rule R)
  from z S' F' R' show ?thesis by blast
qed

theorem NewRethinkStore_leaves_DefaultMaxAge_zero_witness:
  "NewRethinkStore (Inr 1) ''app'' ''sessions'' [[1, 2, 3]] [] (demo_db [])
     = Return (Inr ([demo_options 2592000],
         \<lparr>rows = [], queries = [DBCreateQ ''app'', TableCreateQ ''sessions'',
                                  IndexCreateQ ''expires'', IndexWaitQ]\<rparr>,
         demo_store))
   \<and> DefaultMaxAge demo_store = 0
   \<and> (\<exists>session' db' w' err.
         Save demo_libs 100 [] None demo_store [demo_options 0] (demo_db []) [] (demo_session ''X'' 7)
           = Return (session', db', w', err) \<and>
         find (\<lambda>d. Id' d = ID session') (rows db') =
           Some \<lparr>Id' = ID session', Expires = 100, Session = [7]\<rparr> \<and>
         find (\<lambda>d. Id' d = ID session') (filter (\<lambda>d. 101 \<le> Expires d) (rows db')) = None)"
proof -
  have h1: "NewRethinkStore (Inr 1) ''app'' ''sessions'' [[1, 2, 3]] [] (demo_db [])
     = Return (Inr ([demo_options 2592000],
         \<lparr>rows = [], queries = [DBCreateQ ''app'', TableCreateQ ''sessions'',
                                  IndexCreateQ ''expires'', IndexWaitQ]\<rparr>,
         demo_store))"
    by (simp add: NewRethinkStore_def RethinkStore_MaxAge_def deref_def Run_def demo_db_def
        demo_store_def demo_options_def sessionExpire_def)
  have h2: "deref [demo_options 0] (SOptions (demo_session ''X'' 7)) = Some (demo_options 0)"
    by (simp add: deref_def demo_session_def)
  have h3: "MaxAge (demo_options 0) = 0"
    by (simp add: demo_options_def)
  have h4: "gobEncode demo_libs (Values (demo_session ''X'' 7)) = Inr [7]"
    by (simp add: demo_libs_def demo_session_def)
  have r: "- (2 ^ 63) \<le> (100::int) \<and> (100::int) < 2 ^ 63"
    by simp
  from NewRethinkStore_leaves_DefaultMaxAge_zero [OF h1 h2 h3 h4, of 100 "[]" "demo_db []" "[]"]
  obtain session' db' w' err where
    s: "Save demo_libs 100 [] None demo_store [demo_options 0] (demo_db []) [] (demo_session ''X'' 7)
              = Return (session', db', w', err)"
    and c: "- (2 ^ 63) \<le> (100::int) \<and> (100::int) < 2 ^ 63 \<longrightarrow>
               find (\<lambda>d. Id' d = ID session') (rows db') =
                 Some \<lparr>Id' = ID session', Expires = 100, Session = [7]\<rparr> \<and>
               (\<forall>now'. 100 < now' \<longrightarrow>
                  DeleteExpired None now' demo_store db' =
                    (\<lparr>rows = filter (\<lambda>d. now' \<le> Expires d) (rows db'),
                      queries = queries db' @ [BetweenDeleteQ MinVal (At now') ''expires'']\<rparr>,
                     None) \<and>
                  find (\<lambda>d. Id' d = ID session') (filter (\<lambda>d. now' \<le> Expires d) (rows db'))
                    = None)"
    and z: "DefaultMaxAge demo_store = 0"
    by blast
  from c r have f: "find (\<lambda>d. Id' d = ID session') (rows db') =
                 Some \<lparr>Id' = ID session', Expires = 100, Session = [7]\<rparr>"
    and g: "\<forall>now'. 100 < now' \<longrightarrow>
                  find (\<lambda>d. Id' d = ID session') (filter (\<lambda>d. now' \<le> Expires d) (rows db'))
                    = None"
    by blast+
  from g have g': "find (\<lambda>d. Id' d = ID session') (filter (\<lambda>d. 101 \<le> Expires d) (rows db')) = None"
    by simp
  from h1 z s f g' show ?thesis by blast
qed

end
